theory Spec2Isabelle
  imports Complex_Main "HOL-Library.Signed_Division"
begin

section \<open>GNEGeometry: cached polyline geometry of the network editor\<close>

text \<open>
  This theory embeds the parts of \<^verbatim>\<open>src/netedit/GNEGeometry.cpp\<close> that compute the
  cached rotations and lengths of a polyline, clamp the trimming offsets, alternate the
  colours of a dotted contour, choose the resampling step of a dotted contour, look an
  angle up in the circle table and maintain the lane-to-lane connection map.

  Conventions of the embedding:
  \<^item> a C++ \<^verbatim>\<open>double\<close> is a \<^typ>\<open>real\<close>: there is no NaN, no infinity and no signed
    zero, and arithmetic is exact, except in \<^verbatim>\<open>angleLookup\<close>, where every operation
    rounds its result to the nearest binary64 number;
  \<^item> a \<^verbatim>\<open>PositionVector\<close> is a \<^typ>\<open>'a list\<close> of positions; its size is far below
    \<open>2^31\<close>, so \<^verbatim>\<open>(int)shape.size()\<close> is the mathematical size;
  \<^item> the member functions of \<^verbatim>\<open>PositionVector\<close> (utils/geom) and the constants
    \<^verbatim>\<open>POSITION_EPS\<close> and \<^verbatim>\<open>Position::INVALID\<close> are not part of the file; the operations
    that call them take them as parameters;
  \<^item> a member function that mutates \<^verbatim>\<open>this\<close> takes the object and returns the
    updated object; where it indexes a vector it returns an option, \<open>None\<close> standing
    for a read outside the vector.
\<close>

subsection \<open>Positions and the two primitives\<close>

record Position =
  pos_x :: real
  pos_y :: real
  pos_z :: real

type_synonym PositionVector = "Position list"

definition mkPosition :: "real \<Rightarrow> real \<Rightarrow> Position" where
  \<comment> \<open>\<^verbatim>\<open>Position(x, y)\<close>: the two-argument constructor leaves z at 0.\<close>
  "mkPosition a b = \<lparr>pos_x = a, pos_y = b, pos_z = 0\<rparr>"

definition atan2 :: "real \<Rightarrow> real \<Rightarrow> real" where
  \<comment> \<open>The C library's \<^verbatim>\<open>atan2(y, x)\<close> on finite arguments without signed zeros:
      the angle of the point \<open>(x, y)\<close> in \<open>(-pi, pi]\<close>, and 0 at the origin.\<close>
  "atan2 b a =
     (if 0 < a then arctan (b / a)
      else if a < 0 \<and> 0 \<le> b then arctan (b / a) + pi
      else if a < 0 \<and> b < 0 then arctan (b / a) - pi
      else if 0 < b then pi / 2
      else if b < 0 then - (pi / 2)
      else 0)"

definition distanceTo2D :: "Position \<Rightarrow> Position \<Rightarrow> real" where
  \<comment> \<open>Modelled from the spec: \<^verbatim>\<open>Position::distanceTo2D\<close> (utils/geom/Position.h) is
      not part of the file; the spec gives "length = Euclidean 2D distance".\<close>
  "distanceTo2D p q = sqrt ((pos_x p - pos_x q)\<^sup>2 + (pos_y p - pos_y q)\<^sup>2)"

definition calculateRotation :: "Position \<Rightarrow> Position \<Rightarrow> real" where
  "calculateRotation first second =
     atan2 (pos_x second - pos_x first) (pos_y first - pos_y second) * 180 / pi"

definition calculateLength :: "Position \<Rightarrow> Position \<Rightarrow> real" where
  "calculateLength first second = distanceTo2D first second"

subsection \<open>Geometry\<close>

record Geometry =
  myShape :: PositionVector
  myShapeRotations :: "real list"
  myShapeLengths :: "real list"

definition Geometry_default :: Geometry where
  \<comment> \<open>\<^verbatim>\<open>Geometry()\<close>: three empty containers.\<close>
  "Geometry_default = \<lparr>myShape = [], myShapeRotations = [], myShapeLengths = []\<rparr>"

definition clearGeometry :: "Geometry \<Rightarrow> Geometry" where
  "clearGeometry g = g\<lparr>myShape := [], myShapeRotations := [], myShapeLengths := []\<rparr>"

definition at_index :: "'a list \<Rightarrow> int \<Rightarrow> 'a option" where
  \<comment> \<open>\<^verbatim>\<open>operator[]\<close> of a vector: reading outside \<open>[0, size)\<close> is undefined behaviour,
      here \<open>None\<close>.\<close>
  "at_index xs i = (if 0 \<le> i \<and> i < int (length xs) then Some (xs ! nat i) else None)"

text \<open>
  The loop of \<^verbatim>\<open>calculateShapeRotationsAndLengths\<close>:
  \<^verbatim>\<open>for (int i = 0; i < numberOfSegments; i++) { push_back(...); push_back(...); }\<close>
  It reads \<^verbatim>\<open>myShape[i]\<close> and \<^verbatim>\<open>myShape[i + 1]\<close>; a read outside the shape ends the
  run with \<open>None\<close>.
\<close>

function rotationsAndLengthsLoop :: "int \<Rightarrow> int \<Rightarrow> Geometry \<Rightarrow> Geometry option" where
  "rotationsAndLengthsLoop numberOfSegments i g =
     (if i < numberOfSegments
      then (case at_index (myShape g) i of
              None \<Rightarrow> None
            | Some p \<Rightarrow>
               (case at_index (myShape g) (i + 1) of
                  None \<Rightarrow> None
                | Some q \<Rightarrow>
                   rotationsAndLengthsLoop numberOfSegments (i + 1)
                     (g\<lparr>myShapeRotations := myShapeRotations g @ [calculateRotation p q],
                        myShapeLengths := myShapeLengths g @ [calculateLength p q]\<rparr>)))
      else Some g)"
  by pat_completeness auto
termination
  by (relation "measure (\<lambda>(n, i, g). nat (n - i))") auto

definition calculateShapeRotationsAndLengths :: "Geometry \<Rightarrow> Geometry option" where
  "calculateShapeRotationsAndLengths g =
     (let g1 = g\<lparr>myShapeRotations := [], myShapeLengths := []\<rparr>;
          numberOfSegments = int (length (myShape g1)) - 1
      in if 0 \<le> numberOfSegments
         then rotationsAndLengthsLoop numberOfSegments 0 g1
         else Some g1)"

definition Geometry_of_shape :: "PositionVector \<Rightarrow> Geometry option" where
  \<comment> \<open>\<^verbatim>\<open>Geometry(const PositionVector& shape)\<close>\<close>
  "Geometry_of_shape shape =
     calculateShapeRotationsAndLengths
       \<lparr>myShape = shape, myShapeRotations = [], myShapeLengths = []\<rparr>"

definition Geometry_of_parts :: "PositionVector \<Rightarrow> real list \<Rightarrow> real list \<Rightarrow> Geometry" where
  \<comment> \<open>\<^verbatim>\<open>Geometry(shape, shapeRotations, shapeLengths)\<close>: the arrays are stored as given.\<close>
  "Geometry_of_parts shape shapeRotations shapeLengths =
     \<lparr>myShape = shape, myShapeRotations = shapeRotations, myShapeLengths = shapeLengths\<rparr>"

definition updateGeometry :: "Geometry \<Rightarrow> PositionVector \<Rightarrow> Geometry option" where
  \<comment> \<open>\<^verbatim>\<open>updateGeometry(const PositionVector& shape)\<close>\<close>
  "updateGeometry g shape =
     calculateShapeRotationsAndLengths ((clearGeometry g)\<lparr>myShape := shape\<rparr>)"

text \<open>
  The member functions of \<^verbatim>\<open>PositionVector\<close> that the update operations call. Their code
  is in utils/geom, outside the file, so every operation below takes them as a parameter
  and no theorem depends on what they compute.
\<close>

record PositionVector_ops =
  move2side :: "PositionVector \<Rightarrow> real \<Rightarrow> PositionVector"
  length2D :: "PositionVector \<Rightarrow> real"
  length3D :: "PositionVector \<Rightarrow> real"
  getSubpart2D :: "PositionVector \<Rightarrow> real \<Rightarrow> real \<Rightarrow> PositionVector"
  positionAtOffset :: "PositionVector \<Rightarrow> real \<Rightarrow> real \<Rightarrow> Position"
  rotationDegreeAtOffset :: "PositionVector \<Rightarrow> real \<Rightarrow> real"
  scaleRelative :: "PositionVector \<Rightarrow> real \<Rightarrow> PositionVector"
  push_front_noDoublePos :: "PositionVector \<Rightarrow> Position \<Rightarrow> PositionVector"
  push_back_noDoublePos :: "PositionVector \<Rightarrow> Position \<Rightarrow> PositionVector"
  closePolygon :: "PositionVector \<Rightarrow> PositionVector"
  resample :: "PositionVector \<Rightarrow> real \<Rightarrow> bool \<Rightarrow> PositionVector"

definition updateGeometry_pos ::
  "PositionVector_ops \<Rightarrow> Geometry \<Rightarrow> PositionVector \<Rightarrow> real \<Rightarrow> real \<Rightarrow> Geometry" where
  \<comment> \<open>\<^verbatim>\<open>updateGeometry(shape, posOverShape, lateralOffset)\<close>\<close>
  "updateGeometry_pos ops g shape posOverShape lateralOffset =
     (let g1 = clearGeometry g;
          shapeLength = length3D ops shape
      in if posOverShape < 0
         then g1\<lparr>myShape := myShape g1 @ [positionAtOffset ops shape 0 lateralOffset],
                 myShapeRotations := myShapeRotations g1 @ [rotationDegreeAtOffset ops shape 0]\<rparr>
         else if posOverShape > shapeLength
         then g1\<lparr>myShape := myShape g1 @ [positionAtOffset ops shape shapeLength lateralOffset],
                 myShapeRotations :=
                   myShapeRotations g1 @ [rotationDegreeAtOffset ops shape shapeLength]\<rparr>
         else g1\<lparr>myShape := myShape g1 @ [positionAtOffset ops shape posOverShape lateralOffset],
                 myShapeRotations :=
                   myShapeRotations g1 @ [rotationDegreeAtOffset ops shape posOverShape]\<rparr>)"

text \<open>
  The clamping phase of \<^verbatim>\<open>updateGeometry(shape, starPosOverShape, endPosOverShape,
  lateralOffset)\<close>, lines 104 to 123: five consecutive \<^verbatim>\<open>if\<close> statements. Every one of
  them assigns to \<^verbatim>\<open>endPosOverShape\<close>; \<^verbatim>\<open>starPosOverShape\<close> is only read. The result is
  the pair of offsets handed to \<^verbatim>\<open>getSubpart2D\<close>.
\<close>

definition clampStartEnd :: "real \<Rightarrow> real \<Rightarrow> real \<Rightarrow> real \<Rightarrow> real \<times> real" where
  "clampStartEnd POSITION_EPS shapeLength starPosOverShape endPosOverShape =
     (let e1 = (if starPosOverShape < 0 then 0 else endPosOverShape);
          e2 = (if starPosOverShape < 0 then shapeLength else e1);
          e3 = (if starPosOverShape > shapeLength - POSITION_EPS
                then shapeLength - POSITION_EPS else e2);
          e4 = (if e3 > shapeLength then shapeLength else e3);
          e5 = (if e4 \<le> starPosOverShape then e4 + POSITION_EPS else e4)
      in (starPosOverShape, e5))"

definition updateGeometry_startEnd ::
  "PositionVector_ops \<Rightarrow> real \<Rightarrow> Geometry \<Rightarrow> PositionVector \<Rightarrow> real \<Rightarrow> real \<Rightarrow> real
     \<Rightarrow> Geometry option" where
  \<comment> \<open>\<^verbatim>\<open>updateGeometry(shape, starPosOverShape, endPosOverShape, lateralOffset)\<close>\<close>
  "updateGeometry_startEnd ops POSITION_EPS g shape starPosOverShape endPosOverShape
       lateralOffset =
     (let g1 = (clearGeometry g)\<lparr>myShape := shape\<rparr>;
          g2 = g1\<lparr>myShape := move2side ops (myShape g1) lateralOffset\<rparr>;
          shapeLength = length2D ops (myShape g2);
          (s, e) = clampStartEnd POSITION_EPS shapeLength starPosOverShape endPosOverShape
      in calculateShapeRotationsAndLengths (g2\<lparr>myShape := getSubpart2D ops (myShape g2) s e\<rparr>))"

text \<open>
  The clamping phase of the variant with extra positions, lines 141 to 161. Here the first
  and the third statement assign to \<^verbatim>\<open>beginTrimPosition\<close>.
\<close>

definition clampTrim :: "real \<Rightarrow> real \<Rightarrow> real \<Rightarrow> real \<Rightarrow> real \<times> real" where
  "clampTrim POSITION_EPS shapeLength beginTrimPosition endTrimPosition =
     (let b1 = (if beginTrimPosition < 0 then 0 else beginTrimPosition);
          e1 = (if endTrimPosition < 0 then shapeLength else endTrimPosition);
          b2 = (if b1 > shapeLength - POSITION_EPS then shapeLength - POSITION_EPS else b1);
          e2 = (if e1 > shapeLength then shapeLength else e1);
          e3 = (if e2 \<le> b2 then e2 + POSITION_EPS else e2)
      in (b2, e3))"

definition updateGeometry_trim ::
  "PositionVector_ops \<Rightarrow> real \<Rightarrow> Position \<Rightarrow> Geometry \<Rightarrow> PositionVector \<Rightarrow> real \<Rightarrow> real
     \<Rightarrow> Position \<Rightarrow> Position \<Rightarrow> Geometry option" where
  \<comment> \<open>\<^verbatim>\<open>updateGeometry(shape, beginTrimPosition, endTrimPosition, extraFirstPosition,
      extraLastPosition)\<close>; \<open>INVALID\<close> is \<^verbatim>\<open>Position::INVALID\<close>.\<close>
  "updateGeometry_trim ops POSITION_EPS INVALID g shape beginTrimPosition endTrimPosition
       extraFirstPosition extraLastPosition =
     (let g1 = (clearGeometry g)\<lparr>myShape := shape\<rparr>;
          g2 = (if beginTrimPosition \<noteq> - 1 \<or> endTrimPosition \<noteq> - 1
                then (let shapeLength = length2D ops (myShape g1);
                          (b, e) = clampTrim POSITION_EPS shapeLength beginTrimPosition
                                     endTrimPosition;
                          t0 = getSubpart2D ops (myShape g1) b e;
                          t1 = (if extraFirstPosition \<noteq> INVALID
                                then push_front_noDoublePos ops t0 extraFirstPosition else t0);
                          t2 = (if extraLastPosition \<noteq> INVALID
                                then push_back_noDoublePos ops t1 extraLastPosition else t1)
                      in g1\<lparr>myShape := t2\<rparr>)
                else g1)
      in calculateShapeRotationsAndLengths g2)"

definition updateSinglePosGeometry :: "Geometry \<Rightarrow> Position \<Rightarrow> real \<Rightarrow> Geometry" where
  "updateSinglePosGeometry g position rotation =
     (let g1 = clearGeometry g
      in g1\<lparr>myShape := myShape g1 @ [position],
            myShapeRotations := myShapeRotations g1 @ [rotation]\<rparr>)"

definition scaleGeometry :: "PositionVector_ops \<Rightarrow> Geometry \<Rightarrow> real \<Rightarrow> Geometry" where
  "scaleGeometry ops g scale =
     g\<lparr>myShape := scaleRelative ops (myShape g) scale,
       myShapeLengths := map (\<lambda>shapeLength. shapeLength * scale) (myShapeLengths g)\<rparr>"

text \<open>
  The two properties a \<^verbatim>\<open>Geometry\<close> is expected to keep: the sizes of the caches, and
  their contents, entry \<open>i\<close> belonging to the segment from point \<open>i\<close> to point \<open>i + 1\<close>.
\<close>

definition segmentRotations :: "PositionVector \<Rightarrow> real list" where
  "segmentRotations shape =
     map (\<lambda>i. calculateRotation (shape ! i) (shape ! Suc i)) [0..<length shape - 1]"

definition segmentLengths :: "PositionVector \<Rightarrow> real list" where
  "segmentLengths shape =
     map (\<lambda>i. calculateLength (shape ! i) (shape ! Suc i)) [0..<length shape - 1]"

definition cacheSizesInvariant :: "Geometry \<Rightarrow> bool" where
  "cacheSizesInvariant g \<longleftrightarrow>
     int (length (myShapeRotations g)) = max 0 (int (length (myShape g)) - 1) \<and>
     int (length (myShapeLengths g)) = max 0 (int (length (myShape g)) - 1)"

definition cachesDescribeShape :: "Geometry \<Rightarrow> bool" where
  "cachesDescribeShape g \<longleftrightarrow>
     myShapeRotations g = segmentRotations (myShape g) \<and>
     myShapeLengths g = segmentLengths (myShape g)"

subsection \<open>DottedGeometryColor\<close>

text \<open>
  \<^verbatim>\<open>DottedContourType\<close> is an enum class declared in the header; \<^verbatim>\<open>getColor\<close> names
  four enumerators and has a final \<^verbatim>\<open>else\<close> for every other value.
\<close>

datatype DottedContourType = INSPECT | FRONT | GREEN | MAGENTA | UNRECOGNIZED int

record RGBColor =
  myRed :: nat
  myGreen :: nat
  myBlue :: nat
  myAlpha :: nat

text \<open>
  The settings read by this file (\<^verbatim>\<open>s.dottedContourSettings\<close>) and the colour constants
  and colour operation of \<^verbatim>\<open>RGBColor\<close>; their values are defined outside the file.
\<close>

record GUIVisualizationSettings =
  segmentWidth :: real
  segmentLength :: real
  firstInspectedColor :: RGBColor
  secondInspectedColor :: RGBColor
  firstFrontColor :: RGBColor
  secondFrontColor :: RGBColor

record RGBColor_consts =
  RGBColor_GREEN :: RGBColor
  RGBColor_MAGENTA :: RGBColor
  RGBColor_BLACK :: RGBColor
  changedBrightness :: "RGBColor \<Rightarrow> int \<Rightarrow> RGBColor"

record DottedGeometryColor =
  mySettings :: GUIVisualizationSettings
  myColorFlag :: bool

definition DottedGeometryColor_of :: "GUIVisualizationSettings \<Rightarrow> DottedGeometryColor" where
  "DottedGeometryColor_of settings = \<lparr>mySettings = settings, myColorFlag = True\<rparr>"

fun getColor ::
  "RGBColor_consts \<Rightarrow> DottedGeometryColor \<Rightarrow> DottedContourType
     \<Rightarrow> RGBColor \<times> DottedGeometryColor" where
  "getColor rgb c INSPECT =
     (if myColorFlag c
      then (firstInspectedColor (mySettings c), c\<lparr>myColorFlag := False\<rparr>)
      else (secondInspectedColor (mySettings c), c\<lparr>myColorFlag := True\<rparr>))"
| "getColor rgb c FRONT =
     (if myColorFlag c
      then (firstFrontColor (mySettings c), c\<lparr>myColorFlag := False\<rparr>)
      else (secondFrontColor (mySettings c), c\<lparr>myColorFlag := True\<rparr>))"
| "getColor rgb c GREEN =
     (if myColorFlag c
      then (RGBColor_GREEN rgb, c\<lparr>myColorFlag := False\<rparr>)
      else (changedBrightness rgb (RGBColor_GREEN rgb) (- 30), c\<lparr>myColorFlag := True\<rparr>))"
| "getColor rgb c MAGENTA =
     (if myColorFlag c
      then (RGBColor_MAGENTA rgb, c\<lparr>myColorFlag := False\<rparr>)
      else (changedBrightness rgb (RGBColor_MAGENTA rgb) (- 30), c\<lparr>myColorFlag := True\<rparr>))"
| "getColor rgb c (UNRECOGNIZED v) = (RGBColor_BLACK rgb, c)"

definition changeColor :: "DottedGeometryColor \<Rightarrow> DottedGeometryColor" where
  "changeColor c = (if myColorFlag c then c\<lparr>myColorFlag := False\<rparr> else c\<lparr>myColorFlag := True\<rparr>)"

definition reset :: "DottedGeometryColor \<Rightarrow> DottedGeometryColor" where
  "reset c = c\<lparr>myColorFlag := True\<rparr>"

text \<open>The two colours \<^verbatim>\<open>getColor\<close> alternates between for a contour type.\<close>

fun firstColor :: "RGBColor_consts \<Rightarrow> GUIVisualizationSettings \<Rightarrow> DottedContourType \<Rightarrow> RGBColor" where
  "firstColor rgb s INSPECT = firstInspectedColor s"
| "firstColor rgb s FRONT = firstFrontColor s"
| "firstColor rgb s GREEN = RGBColor_GREEN rgb"
| "firstColor rgb s MAGENTA = RGBColor_MAGENTA rgb"
| "firstColor rgb s (UNRECOGNIZED v) = RGBColor_BLACK rgb"

fun secondColor :: "RGBColor_consts \<Rightarrow> GUIVisualizationSettings \<Rightarrow> DottedContourType \<Rightarrow> RGBColor" where
  "secondColor rgb s INSPECT = secondInspectedColor s"
| "secondColor rgb s FRONT = secondFrontColor s"
| "secondColor rgb s GREEN = changedBrightness rgb (RGBColor_GREEN rgb) (- 30)"
| "secondColor rgb s MAGENTA = changedBrightness rgb (RGBColor_MAGENTA rgb) (- 30)"
| "secondColor rgb s (UNRECOGNIZED v) = RGBColor_BLACK rgb"

fun recognized :: "DottedContourType \<Rightarrow> bool" where
  "recognized (UNRECOGNIZED v) = False"
| "recognized t = True"

subsection \<open>DottedGeometry\<close>

definition MAXIMUM_DOTTEDGEOMETRYLENGTH :: real where
  "MAXIMUM_DOTTEDGEOMETRYLENGTH = 500"

record Segment =
  seg_shape :: PositionVector
  seg_rotations :: "real list"
  seg_lengths :: "real list"
  seg_offset :: int

record DottedGeometry =
  myWidth :: real
  myDottedGeometrySegments :: "Segment list"

definition Segment_of_shape :: "PositionVector \<Rightarrow> Segment" where
  \<comment> \<open>\<^verbatim>\<open>Segment(PositionVector newShape)\<close>\<close>
  "Segment_of_shape newShape =
     \<lparr>seg_shape = newShape, seg_rotations = [], seg_lengths = [], seg_offset = - 1\<rparr>"

function segmentRotationsAndLengthsLoop :: "int \<Rightarrow> int \<Rightarrow> Segment \<Rightarrow> Segment option" where
  "segmentRotationsAndLengthsLoop numberOfSegments i segment =
     (if i < numberOfSegments
      then (case at_index (seg_shape segment) i of
              None \<Rightarrow> None
            | Some p \<Rightarrow>
               (case at_index (seg_shape segment) (i + 1) of
                  None \<Rightarrow> None
                | Some q \<Rightarrow>
                   segmentRotationsAndLengthsLoop numberOfSegments (i + 1)
                     (segment\<lparr>seg_rotations := seg_rotations segment @ [calculateRotation p q],
                              seg_lengths := seg_lengths segment @ [calculateLength p q]\<rparr>)))
      else Some segment)"
  by pat_completeness auto
termination
  by (relation "measure (\<lambda>(n, i, segment). nat (n - i))") auto

definition segmentRotationsAndLengths :: "Segment \<Rightarrow> Segment option" where
  \<comment> \<open>the body of the outer loop of \<^verbatim>\<open>DottedGeometry::calculateShapeRotationsAndLengths\<close>;
      the caches of the segment are not cleared first\<close>
  "segmentRotationsAndLengths segment =
     (let numberOfSegments = int (length (seg_shape segment)) - 1
      in if 0 \<le> numberOfSegments
         then segmentRotationsAndLengthsLoop numberOfSegments 0 segment
         else Some segment)"

fun calculateSegments :: "Segment list \<Rightarrow> Segment list option" where
  "calculateSegments [] = Some []"
| "calculateSegments (segment # rest) =
     (case segmentRotationsAndLengths segment of
        None \<Rightarrow> None
      | Some segment' \<Rightarrow>
         (case calculateSegments rest of
            None \<Rightarrow> None
          | Some rest' \<Rightarrow> Some (segment' # rest')))"

definition DottedGeometry_calculateShapeRotationsAndLengths ::
  "DottedGeometry \<Rightarrow> DottedGeometry option" where
  "DottedGeometry_calculateShapeRotationsAndLengths dg =
     (case calculateSegments (myDottedGeometrySegments dg) of
        None \<Rightarrow> None
      | Some segments \<Rightarrow> Some (dg\<lparr>myDottedGeometrySegments := segments\<rparr>))"

text \<open>
  \<^verbatim>\<open>for (int i = 1; i < (int)shape.size(); i++)
       myDottedGeometrySegments.push_back(Segment({shape[i - 1], shape[i]}));\<close>
\<close>

function rawSegmentsLoop :: "PositionVector \<Rightarrow> int \<Rightarrow> Segment list \<Rightarrow> Segment list option" where
  "rawSegmentsLoop shape i segments =
     (if i < int (length shape)
      then (case at_index shape (i - 1) of
              None \<Rightarrow> None
            | Some p \<Rightarrow>
               (case at_index shape i of
                  None \<Rightarrow> None
                | Some q \<Rightarrow> rawSegmentsLoop shape (i + 1) (segments @ [Segment_of_shape [p, q]])))
      else Some segments)"
  by pat_completeness auto
termination
  by (relation "measure (\<lambda>(shape, i, segments). nat (int (length shape) - i))") auto

definition shapeToResample :: "PositionVector_ops \<Rightarrow> PositionVector \<Rightarrow> bool \<Rightarrow> PositionVector" where
  \<comment> \<open>\<^verbatim>\<open>if (closeShape && (shape.size() > 2)) { shape.closePolygon(); }\<close>: the polyline
      the constructor works on\<close>
  "shapeToResample ops shape0 closeShape =
     (if closeShape \<and> length shape0 > 2 then closePolygon ops shape0 else shape0)"

definition DottedGeometry_of_shape ::
  "PositionVector_ops \<Rightarrow> GUIVisualizationSettings \<Rightarrow> PositionVector \<Rightarrow> bool
     \<Rightarrow> DottedGeometry option" where
  \<comment> \<open>\<^verbatim>\<open>DottedGeometry(const GUIVisualizationSettings& s, PositionVector shape,
      const bool closeShape)\<close>\<close>
  "DottedGeometry_of_shape ops s shape0 closeShape =
     (let dg = \<lparr>myWidth = segmentWidth s, myDottedGeometrySegments = []\<rparr>;
          shape = shapeToResample ops shape0 closeShape
      in if length shape > 1
         then (case rawSegmentsLoop shape 1 (myDottedGeometrySegments dg) of
                 None \<Rightarrow> None
               | Some segments \<Rightarrow>
                  (let segmentLength0 = segmentLength s;
                       segmentLength1 =
                         (if length2D ops shape > MAXIMUM_DOTTEDGEOMETRYLENGTH
                          then length2D ops shape / (MAXIMUM_DOTTEDGEOMETRYLENGTH * 0.5)
                          else segmentLength0);
                       resampled =
                         map (\<lambda>segment. segment\<lparr>seg_shape :=
                                resample ops (seg_shape segment) segmentLength1 True\<rparr>) segments
                   in DottedGeometry_calculateShapeRotationsAndLengths
                        (dg\<lparr>myDottedGeometrySegments := resampled\<rparr>)))
         else Some dg)"

text \<open>The consecutive pairs of points of a polyline.\<close>

definition rawPairs :: "PositionVector \<Rightarrow> PositionVector list" where
  "rawPairs shape = map (\<lambda>i. [shape ! i, shape ! Suc i]) [0..<length shape - 1]"

subsection \<open>The circle table and \<^verbatim>\<open>angleLookup\<close>\<close>

definition CIRCLE_RESOLUTION :: real where
  "CIRCLE_RESOLUTION = 10"

definition DEG2RAD :: "real \<Rightarrow> real" where
  \<comment> \<open>Modelled from the spec: the macro \<^verbatim>\<open>DEG2RAD\<close> (utils/geom/GeomHelper.h) is not part
      of the file; the spec has the table hold "unit-circle points sampled every 0.1
      degrees", so it converts degrees to radians.\<close>
  "DEG2RAD d = d * pi / 180"

definition fillCircleCoords :: PositionVector where
  \<comment> \<open>\<^verbatim>\<open>for (int i = 0; i <= (int)(360 * CIRCLE_RESOLUTION); ++i) push_back(...)\<close> on the
      empty table\<close>
  "fillCircleCoords =
     map (\<lambda>i. mkPosition (sin (DEG2RAD (real_of_int i / CIRCLE_RESOLUTION)))
                          (cos (DEG2RAD (real_of_int i / CIRCLE_RESOLUTION))))
         [0..3600]"

definition in_int_range :: "int \<Rightarrow> bool" where
  \<comment> \<open>the values of a 32-bit \<^verbatim>\<open>int\<close>\<close>
  "in_int_range k \<longleftrightarrow> - (2 ^ 31) \<le> k \<and> k \<le> 2 ^ 31 - 1"

definition int_of_double :: "real \<Rightarrow> int option" where
  \<comment> \<open>The conversion \<^verbatim>\<open>(int)d\<close> of a double to a 32-bit \<^verbatim>\<open>int\<close>: the value truncated
      towards zero when that fits the type, undefined (\<open>None\<close>) otherwise.\<close>
  "int_of_double d =
     (let t = (if 0 \<le> d then \<lfloor>d\<rfloor> else \<lceil>d\<rceil>)
      in if in_int_range t then Some t else None)"

text \<open>
  \<^verbatim>\<open>angleLookup\<close> computes \<^verbatim>\<open>floor(angleDeg * CIRCLE_RESOLUTION + 0.5)\<close> in doubles, and
  whether two angles get the same index depends on how the product and the sum are
  rounded. Here, and only here, the arithmetic of doubles is modelled: a double is the real
  number it stands for, and every operation returns the exact result rounded to the nearest
  binary64 number, ties to the even significand (the default rounding of IEEE 754, one
  rounding per operation). The precision is 53 bits and the least exponent -1022; an
  overflow to infinity is not modelled, since a value that large is far outside the range
  of \<^verbatim>\<open>int\<close> and its conversion is undefined in any case.
\<close>

definition round_even :: "real \<Rightarrow> int" where
  \<comment> \<open>the nearest integer, a tie going to the even one\<close>
  "round_even y =
     (let r = \<lfloor>y\<rfloor>; d = y - of_int r
      in if d < 1/2 then r else if 1/2 < d then r + 1 else if even r then r else r + 1)"

definition double_round :: "real \<Rightarrow> real" where
  \<comment> \<open>the nearest binary64 number: a multiple of \<open>2 ^ (e - 52)\<close>, where \<open>2 ^ e \<le> |x| < 2 ^ (e + 1)\<close>
      and \<open>e\<close> is at least -1022\<close>
  "double_round x =
     (if x = 0 then 0
      else (let e = max \<lfloor>log 2 \<bar>x\<bar>\<rfloor> (- 1022);
                u = 2 powr of_int (e - 52)
            in of_int (round_even (x / u)) * u))"

definition double_mult :: "real \<Rightarrow> real \<Rightarrow> real" where
  "double_mult a b = double_round (a * b)"

definition double_add :: "real \<Rightarrow> real \<Rightarrow> real" where
  "double_add a b = double_round (a + b)"

definition roundedScaledAngle :: "real \<Rightarrow> int" where
  \<comment> \<open>\<^verbatim>\<open>floor(angleDeg * CIRCLE_RESOLUTION + 0.5)\<close>: the product and the sum are rounded, the
      floor of a double is exact\<close>
  "roundedScaledAngle angleDeg = \<lfloor>double_add (double_mult angleDeg CIRCLE_RESOLUTION) 0.5\<rfloor>"

definition angleLookup :: "PositionVector \<Rightarrow> real \<Rightarrow> int option" where
  \<comment> \<open>\<open>%\<close> is C's remainder, truncating towards zero (\<open>smod\<close>); it is undefined for a
      zero divisor and for \<open>INT_MIN % -1\<close>. A failed \<^verbatim>\<open>assert\<close> is \<open>None\<close> as well.\<close>
  "angleLookup myCircleCoords angleDeg =
     (let numCoords = int (length myCircleCoords) - 1
      in case int_of_double (of_int (roundedScaledAngle angleDeg)) of
           None \<Rightarrow> None
         | Some k \<Rightarrow>
            if numCoords = 0 \<or> (k = - (2 ^ 31) \<and> numCoords = - 1) then None
            else (let index0 = k smod numCoords;
                      index = (if index0 < 0 then index0 + numCoords else index0)
                  in if 0 \<le> index then Some index else None))"

subsection \<open>Lane2laneConnection\<close>

text \<open>
  Lanes and edges are pointers in the source; here they are identified by numbers. The
  accessors of the network classes (\<^verbatim>\<open>GNELane\<close>, \<^verbatim>\<open>GNEEdge\<close>, \<^verbatim>\<open>NBEdge\<close>, \<^verbatim>\<open>NBNode\<close>) are
  not part of the file and are parameters: \<open>outgoingEdges l\<close> stands for
  \<^verbatim>\<open>l->getParentEdge()->getToJunction()->getGNEOutgoingEdges()\<close>, \<open>numLanesOfEdgeOf l\<close> for
  \<^verbatim>\<open>l->getParentEdge()->getNBEdge()->getNumLanes()\<close>, \<open>toNodeArea l\<close> for the area of the
  shape of the destination node of that edge, \<open>isTurnDestination l l'\<close> for
  \<^verbatim>\<open>NBEdgeFrom->getTurnDestination() == NBEdgeTo\<close>, and \<open>computeSmoothShape\<close> for the
  call of that name with the two lane shapes (given by the two lanes) and the four
  remaining arguments.
\<close>

type_synonym GNELane = nat
type_synonym GNEEdge = nat

record Network =
  outgoingEdges :: "GNELane \<Rightarrow> GNEEdge list"
  getLanes :: "GNEEdge \<Rightarrow> GNELane list"
  numLanesOfEdgeOf :: "GNELane \<Rightarrow> int"
  toNodeArea :: "GNELane \<Rightarrow> real"
  isTurnDestination :: "GNELane \<Rightarrow> GNELane \<Rightarrow> bool"
  computeSmoothShape :: "GNELane \<Rightarrow> GNELane \<Rightarrow> int \<Rightarrow> bool \<Rightarrow> real \<Rightarrow> real \<Rightarrow> PositionVector"
  getLaneShape :: "GNELane \<Rightarrow> PositionVector"

record Lane2laneConnection =
  myFromLane :: "GNELane option"
  myConnectionsMap :: "GNELane \<rightharpoonup> Geometry"

definition Lane2laneConnection_of :: "GNELane \<Rightarrow> Lane2laneConnection" where
  \<comment> \<open>\<^verbatim>\<open>Lane2laneConnection(const GNELane* fromLane)\<close>\<close>
  "Lane2laneConnection_of fromLane = \<lparr>myFromLane = Some fromLane, myConnectionsMap = Map.empty\<rparr>"

definition Lane2laneConnection_default :: Lane2laneConnection where
  \<comment> \<open>\<^verbatim>\<open>Lane2laneConnection()\<close>: \<^verbatim>\<open>myFromLane\<close> is the null pointer\<close>
  "Lane2laneConnection_default = \<lparr>myFromLane = None, myConnectionsMap = Map.empty\<rparr>"

definition vector_back :: "'a list \<Rightarrow> 'a option" where
  \<comment> \<open>\<^verbatim>\<open>back()\<close> of an empty vector is undefined\<close>
  "vector_back xs = (if xs = [] then None else Some (last xs))"

definition vector_front :: "'a list \<Rightarrow> 'a option" where
  \<comment> \<open>\<^verbatim>\<open>front()\<close> of an empty vector is undefined\<close>
  "vector_front xs = (case xs of [] \<Rightarrow> None | v # _ \<Rightarrow> Some v)"

definition connectionShape :: "Network \<Rightarrow> GNELane \<Rightarrow> GNELane \<Rightarrow> PositionVector option" where
  \<comment> \<open>the \<^verbatim>\<open>if\<close> of the loop body, with \<open>numPoints = 5\<close> and \<open>maximumLanes = 10\<close>\<close>
  "connectionShape net fromLane outgoingLane =
     (let numPoints = 5; maximumLanes = 10
      in if numLanesOfEdgeOf net fromLane \<le> maximumLanes \<and> toNodeArea net fromLane > 4
         then Some (computeSmoothShape net fromLane outgoingLane numPoints
                      (isTurnDestination net fromLane outgoingLane)
                      (real_of_int numPoints * real_of_int (numLanesOfEdgeOf net fromLane))
                      (real_of_int numPoints * real_of_int (numLanesOfEdgeOf net outgoingLane)))
         else (case vector_back (getLaneShape net fromLane) of
                 None \<Rightarrow> None
               | Some b \<Rightarrow>
                  (case vector_front (getLaneShape net outgoingLane) of
                     None \<Rightarrow> None
                   | Some f \<Rightarrow> Some [b, f])))"

fun lanesLoop ::
  "Network \<Rightarrow> GNELane \<Rightarrow> GNELane list \<Rightarrow> (GNELane \<rightharpoonup> Geometry) \<Rightarrow> (GNELane \<rightharpoonup> Geometry) option" where
  "lanesLoop net fromLane [] m = Some m"
| "lanesLoop net fromLane (outgoingLane # rest) m =
     (case connectionShape net fromLane outgoingLane of
        None \<Rightarrow> None
      | Some shape \<Rightarrow>
         \<comment> \<open>\<^verbatim>\<open>myConnectionsMap[outgoingLane]\<close> inserts a default geometry for a new key\<close>
         (case updateGeometry
                 (case m outgoingLane of None \<Rightarrow> Geometry_default | Some g \<Rightarrow> g) shape of
            None \<Rightarrow> None
          | Some g' \<Rightarrow> lanesLoop net fromLane rest (m(outgoingLane \<mapsto> g'))))"

fun edgesLoop ::
  "Network \<Rightarrow> GNELane \<Rightarrow> GNEEdge list \<Rightarrow> (GNELane \<rightharpoonup> Geometry) \<Rightarrow> (GNELane \<rightharpoonup> Geometry) option" where
  "edgesLoop net fromLane [] m = Some m"
| "edgesLoop net fromLane (outgoingEdge # rest) m =
     (case lanesLoop net fromLane (getLanes net outgoingEdge) m of
        None \<Rightarrow> None
      | Some m' \<Rightarrow> edgesLoop net fromLane rest m')"

definition updateLane2laneConnection ::
  "Network \<Rightarrow> Lane2laneConnection \<Rightarrow> Lane2laneConnection option" where
  "updateLane2laneConnection net c =
     (let c1 = c\<lparr>myConnectionsMap := Map.empty\<rparr>
      in case myFromLane c1 of
           None \<Rightarrow> None
         | Some fromLane \<Rightarrow>
            (case edgesLoop net fromLane (outgoingEdges net fromLane) (myConnectionsMap c1) of
               None \<Rightarrow> None
             | Some m \<Rightarrow> Some (c1\<lparr>myConnectionsMap := m\<rparr>)))"

definition exist :: "Lane2laneConnection \<Rightarrow> GNELane \<Rightarrow> bool" where
  \<comment> \<open>\<^verbatim>\<open>myConnectionsMap.count(toLane) > 0\<close>\<close>
  "exist c toLane \<longleftrightarrow> myConnectionsMap c toLane \<noteq> None"

definition lanesOfOutgoingEdges :: "Network \<Rightarrow> GNELane \<Rightarrow> GNELane list" where
  \<comment> \<open>the lanes the two nested loops enumerate, in order\<close>
  "lanesOfOutgoingEdges net fromLane = concat (map (getLanes net) (outgoingEdges net fromLane))"

subsection \<open>Concrete inputs\<close>

text \<open>
  Values for the parameters, used only where a theorem is instantiated at a concrete
  input. \<open>xAxis_ops\<close> stands in for the operations of \<^verbatim>\<open>PositionVector\<close> on polylines
  that run along the x axis in the direction of increasing x; its \<open>resample\<close> keeps the
  two end points and marks the step by one point at that distance from the first.
\<close>

definition example_settings :: GUIVisualizationSettings where
  "example_settings =
     \<lparr>segmentWidth = 1/5, segmentLength = 2,
      firstInspectedColor = \<lparr>myRed = 235, myGreen = 235, myBlue = 235, myAlpha = 255\<rparr>,
      secondInspectedColor = \<lparr>myRed = 20, myGreen = 20, myBlue = 20, myAlpha = 255\<rparr>,
      firstFrontColor = \<lparr>myRed = 0, myGreen = 0, myBlue = 235, myAlpha = 255\<rparr>,
      secondFrontColor = \<lparr>myRed = 0, myGreen = 255, myBlue = 0, myAlpha = 255\<rparr>\<rparr>"

definition example_rgb :: RGBColor_consts where
  "example_rgb =
     \<lparr>RGBColor_GREEN = \<lparr>myRed = 0, myGreen = 255, myBlue = 0, myAlpha = 255\<rparr>,
      RGBColor_MAGENTA = \<lparr>myRed = 255, myGreen = 0, myBlue = 255, myAlpha = 255\<rparr>,
      RGBColor_BLACK = \<lparr>myRed = 0, myGreen = 0, myBlue = 0, myAlpha = 255\<rparr>,
      changedBrightness = (\<lambda>c change.
         \<lparr>myRed = nat (min 255 (max 0 (int (myRed c) + change))),
          myGreen = nat (min 255 (max 0 (int (myGreen c) + change))),
          myBlue = nat (min 255 (max 0 (int (myBlue c) + change))),
          myAlpha = myAlpha c\<rparr>)\<rparr>"

definition xAxis_ops :: PositionVector_ops where
  "xAxis_ops =
     \<lparr>move2side = (\<lambda>shape amount. shape),
      length2D = (\<lambda>shape. case shape of [] \<Rightarrow> 0 | p # _ \<Rightarrow> pos_x (last shape) - pos_x p),
      length3D = (\<lambda>shape. case shape of [] \<Rightarrow> 0 | p # _ \<Rightarrow> pos_x (last shape) - pos_x p),
      getSubpart2D = (\<lambda>shape beginOffset endOffset.
         case shape of [] \<Rightarrow> []
         | p # _ \<Rightarrow> [mkPosition (pos_x p + beginOffset) 0, mkPosition (pos_x p + endOffset) 0]),
      positionAtOffset = (\<lambda>shape pos lateralOffset.
         case shape of [] \<Rightarrow> mkPosition 0 0 | p # _ \<Rightarrow> mkPosition (pos_x p + pos) lateralOffset),
      rotationDegreeAtOffset = (\<lambda>shape pos. 0),
      scaleRelative = (\<lambda>shape factor. shape),
      push_front_noDoublePos = (\<lambda>shape p.
         case shape of [] \<Rightarrow> [p] | q # _ \<Rightarrow> if p = q then shape else p # shape),
      push_back_noDoublePos = (\<lambda>shape p.
         if shape \<noteq> [] \<and> last shape = p then shape else shape @ [p]),
      closePolygon = (\<lambda>shape.
         case shape of [] \<Rightarrow> [] | p # _ \<Rightarrow> if last shape = p then shape else shape @ [p]),
      resample = (\<lambda>shape maxLength adjustEnd.
         case shape of [] \<Rightarrow> []
         | p # _ \<Rightarrow> [p, mkPosition (pos_x p + maxLength) 0, last shape])\<rparr>"

definition example_INVALID :: Position where
  "example_INVALID = \<lparr>pos_x = - 1073741824, pos_y = - 1073741824, pos_z = - 1073741824\<rparr>"

definition example_network :: Network where
  "example_network =
     \<lparr>outgoingEdges = (\<lambda>lane. [10, 11]),
      getLanes = (\<lambda>edge. if edge = 10 then [1, 2] else if edge = 11 then [3] else []),
      numLanesOfEdgeOf = (\<lambda>lane. 2),
      toNodeArea = (\<lambda>lane. 0),
      isTurnDestination = (\<lambda>fromLane toLane. False),
      computeSmoothShape = (\<lambda>fromLane toLane numPoints isTurnaround extrapolateBeg
         extrapolateEnd. []),
      getLaneShape = (\<lambda>lane. [mkPosition (real lane) 0, mkPosition (real lane) 10])\<rparr>"

section \<open>The loop that fills the caches\<close>

declare rotationsAndLengthsLoop.simps [simp del]
declare segmentRotationsAndLengthsLoop.simps [simp del]
declare rawSegmentsLoop.simps [simp del]

text \<open>
  Started at an index \<open>i \<ge> 0\<close> with a bound below the size of the shape, the loop never
  reads outside the shape and appends one rotation and one length per remaining index.
\<close>

lemma rotationsAndLengthsLoop_Some:
  "0 \<le> i \<Longrightarrow> n < int (length (myShape g)) \<Longrightarrow>
   rotationsAndLengthsLoop n i g =
     Some (g\<lparr>myShapeRotations := myShapeRotations g @
                map (\<lambda>k. calculateRotation (myShape g ! k) (myShape g ! Suc k)) [nat i..<nat n],
              myShapeLengths := myShapeLengths g @
                map (\<lambda>k. calculateLength (myShape g ! k) (myShape g ! Suc k)) [nat i..<nat n]\<rparr>)"
proof (induction n i g rule: rotationsAndLengthsLoop.induct)
  case (1 n i g)
  show ?case
  proof (cases "i < n")
    case False
    then have "[nat i..<nat n] = []" by simp
    with False show ?thesis by (subst rotationsAndLengthsLoop.simps) simp
  next
    case True
    with "1.prems" have rd: "at_index (myShape g) i = Some (myShape g ! nat i)"
      "at_index (myShape g) (i + 1) = Some (myShape g ! Suc (nat i))"
      by (simp_all add: at_index_def nat_add_distrib)
    from True "1.prems" have up: "[nat i..<nat n] = nat i # [nat (i + 1)..<nat n]"
      by (simp add: upt_conv_Cons nat_add_distrib)
    let ?g = "g\<lparr>myShapeRotations := myShapeRotations g @
                  [calculateRotation (myShape g ! nat i) (myShape g ! Suc (nat i))],
                myShapeLengths := myShapeLengths g @
                  [calculateLength (myShape g ! nat i) (myShape g ! Suc (nat i))]\<rparr>"
    have ih: "rotationsAndLengthsLoop n (i + 1) ?g =
       Some (?g\<lparr>myShapeRotations := myShapeRotations ?g @
                map (\<lambda>k. calculateRotation (myShape ?g ! k) (myShape ?g ! Suc k))
                  [nat (i + 1)..<nat n],
              myShapeLengths := myShapeLengths ?g @
                map (\<lambda>k. calculateLength (myShape ?g ! k) (myShape ?g ! Suc k))
                  [nat (i + 1)..<nat n]\<rparr>)"
      using "1.IH" [OF True rd(1) rd(2)] "1.prems" by simp
    show ?thesis
      by (subst rotationsAndLengthsLoop.simps) (simp add: True rd ih up)
  qed
qed

lemma calculateShapeRotationsAndLengths_eq:
  "calculateShapeRotationsAndLengths g =
     Some (g\<lparr>myShapeRotations := segmentRotations (myShape g),
              myShapeLengths := segmentLengths (myShape g)\<rparr>)"
proof (cases "myShape g = []")
  case True
  then show ?thesis
    by (simp add: calculateShapeRotationsAndLengths_def segmentRotations_def segmentLengths_def)
next
  case False
  then have pos: "0 < length (myShape g)" by simp
  let ?g1 = "g\<lparr>myShapeRotations := [], myShapeLengths := []\<rparr>"
  have n: "nat (int (length (myShape g)) - 1) = length (myShape g) - 1" by simp
  have "rotationsAndLengthsLoop (int (length (myShape ?g1)) - 1) 0 ?g1 =
      Some (g\<lparr>myShapeRotations := segmentRotations (myShape g),
              myShapeLengths := segmentLengths (myShape g)\<rparr>)"
    by (subst rotationsAndLengthsLoop_Some) (simp_all add: segmentRotations_def segmentLengths_def n)
  with pos show ?thesis
    by (simp add: calculateShapeRotationsAndLengths_def Let_def)
qed

section \<open>Clamping of the start and end offsets\<close>

text \<open>
  C1, as stated: the clamping phase of the start/end-offset variant would end with
  \<open>endOffset \<ge> startOffset + POSITION_EPS\<close> for every input. It does not: with a path of
  length 100, \<open>POSITION_EPS = 0.1\<close>, start offset 10 and end offset 5 no clamp applies
  before the last step, which adds one epsilon to the end offset; the phase ends with the
  end offset 5.1, below 10.1.
\<close>

theorem C1_counterexample:
  "\<not> (fst (clampStartEnd (1/10) 100 10 5) + 1/10 \<le> snd (clampStartEnd (1/10) 100 10 5))"
  by (simp add: clampStartEnd_def)

text \<open>
  C1, amended: for a start offset already in range, \<open>0 \<le> startOffset \<le> length - eps\<close>, the
  clamping phase leaves the start offset as it is, caps the end offset at the length and
  adds one epsilon to the capped value when that is not above the start. So for
  \<open>startOffset \<le> endOffset\<close> it ends with \<open>startOffset < endOffset \<le> length\<close>; for
  \<open>startOffset > endOffset\<close> it ends with the end offset \<open>endOffset + eps\<close>, which is below
  \<open>startOffset + eps\<close>; and it ends with \<open>endOffset \<ge> startOffset + eps\<close> exactly when on
  entry the end offset equals the start offset or exceeds it by at least epsilon.
\<close>

theorem C1_in_range_window:
  assumes "0 < eps" and "0 \<le> s" and "s \<le> len - eps"
  shows "fst (clampStartEnd eps len s e) = s
       \<and> snd (clampStartEnd eps len s e) = (if min e len \<le> s then min e len + eps else min e len)
       \<and> (s \<le> e \<longrightarrow> s < snd (clampStartEnd eps len s e) \<and> snd (clampStartEnd eps len s e) \<le> len)
       \<and> (e < s \<longrightarrow> clampStartEnd eps len s e = (s, e + eps)
                  \<and> snd (clampStartEnd eps len s e) < s + eps)
       \<and> (s + eps \<le> snd (clampStartEnd eps len s e) \<longleftrightarrow> e = s \<or> s + eps \<le> e)"
proof -
  have c: "clampStartEnd eps len s e =
      (s, if min e len \<le> s then min e len + eps else min e len)"
    using assms by (auto simp add: clampStartEnd_def Let_def min_def)
  show ?thesis
    unfolding c using assms by (auto simp add: min_def)
qed

text \<open>
  Witness for C1, on a path of length 100 with epsilon 0.1: the empty window from 10 to 10
  comes out as the window from 10 to 10.1, and the reversed window from 10 to 5 comes out
  with the end offset 5.1, below 10.1.
\<close>

theorem C1_in_range_window_witness:
  "(0::real) < 1/10 \<and> (0::real) \<le> 10 \<and> (10::real) \<le> 100 - 1/10
   \<and> (10::real) \<le> 10
   \<and> fst (clampStartEnd (1/10) 100 10 10) = 10
   \<and> snd (clampStartEnd (1/10) 100 10 10) = 10 + 1/10
   \<and> (5::real) < 10
   \<and> clampStartEnd (1/10) 100 10 5 = (10, 5 + 1/10)
   \<and> snd (clampStartEnd (1/10) 100 10 5) < 10 + 1/10"
  using C1_in_range_window [of "1/10" 10 100 10] C1_in_range_window [of "1/10" 10 100 5]
  by simp

text \<open>
  C2: the claim has a negative start offset reset to 0 and a start offset beyond
  \<open>length - eps\<close> pulled back to \<open>length - eps\<close>. The code of the start/end-offset variant
  assigns to the end offset in both statements and never changes the start offset: on a
  path of length 100 with epsilon 0.1, the offsets (-5, 50) leave the phase as (-5, 100)
  and the offsets (200, 50) as (200, 100). The variant with extra positions, whose
  statements carry the same comments, turns the same inputs into (0, 50) and (99.9, 50.1).
\<close>

theorem C2_start_offset_not_clamped:
  "clampStartEnd (1/10) 100 (- 5) 50 = (- 5, 100)
   \<and> clampStartEnd (1/10) 100 200 50 = (200, 100)
   \<and> clampTrim (1/10) 100 (- 5) 50 = (0, 50)
   \<and> clampTrim (1/10) 100 200 50 = (999/10, 50 + 1/10)
   \<and> fst (clampStartEnd eps len s e) = s"
  by (simp add: clampStartEnd_def clampTrim_def Let_def)

section \<open>Rotations and lengths of a polyline\<close>

lemma Geometry_of_shape_eq:
  "Geometry_of_shape shape =
     Some \<lparr>myShape = shape, myShapeRotations = segmentRotations shape,
           myShapeLengths = segmentLengths shape\<rparr>"
  by (simp add: Geometry_of_shape_def calculateShapeRotationsAndLengths_eq)

lemma calculateRotation_vertical: "pos_x p = pos_x q \<Longrightarrow> pos_y p < pos_y q \<Longrightarrow> calculateRotation p q = 180"
  by (simp add: calculateRotation_def atan2_def)

lemma two_point_caches:
  "segmentRotations [p, q] = [calculateRotation p q]"
  "segmentLengths [p, q] = [calculateLength p q]"
  by (simp_all add: segmentRotations_def segmentLengths_def)

text \<open>
  C4, as stated: \<^verbatim>\<open>Geometry({(0,0),(0,10)})\<close> would yield the rotations \<open>[0]\<close> and the
  lengths \<open>[10]\<close>. The rotation of the segment is \<open>atan2(0 - 0, 0 - 10)\<close> in degrees, which
  is 180 and not 0.
\<close>

theorem C4_counterexample:
  "Geometry_of_shape [mkPosition 0 0, mkPosition 0 10] \<noteq>
     Some \<lparr>myShape = [mkPosition 0 0, mkPosition 0 10], myShapeRotations = [0],
           myShapeLengths = [10]\<rparr>"
  by (simp add: Geometry_of_shape_eq two_point_caches calculateRotation_vertical mkPosition_def)

text \<open>
  C4, amended: \<^verbatim>\<open>Geometry({(0,0),(0,10)})\<close> yields the rotations \<open>[180]\<close> and the lengths
  \<open>[10]\<close>. The rotation of a segment is \<open>atan2(dx, -dy)\<close> in degrees: 0 degrees points
  along -Y, 90 degrees along +X, 180 degrees along +Y and -90 degrees along -X.
\<close>

theorem C4_two_point_polyline:
  "Geometry_of_shape [mkPosition 0 0, mkPosition 0 10] =
     Some \<lparr>myShape = [mkPosition 0 0, mkPosition 0 10], myShapeRotations = [180],
           myShapeLengths = [10]\<rparr>
   \<and> calculateRotation (mkPosition 0 0) (mkPosition 0 (- 10)) = 0
   \<and> calculateRotation (mkPosition 0 0) (mkPosition 10 0) = 90
   \<and> calculateRotation (mkPosition 0 0) (mkPosition (- 10) 0) = - 90"
  by (simp add: Geometry_of_shape_eq two_point_caches calculateRotation_vertical mkPosition_def
      calculateLength_def distanceTo2D_def)
    (simp add: calculateRotation_def atan2_def mkPosition_def)

text \<open>
  C5: for every polyline \<open>P\<close> the constructor returns (it never reads outside the shape) a
  geometry with shape \<open>P\<close> whose rotations and lengths have \<open>max(0, |P| - 1)\<close> entries each;
  entry \<open>i\<close> is \<open>atan2(P[i+1].x - P[i].x, P[i].y - P[i+1].y)\<close> in degrees and the Euclidean
  2D distance between \<open>P[i]\<close> and \<open>P[i+1]\<close>; for an empty or single-point polyline both
  arrays are empty.
\<close>

theorem C5_caches_of_polyline:
  "\<exists>g. Geometry_of_shape P = Some g
     \<and> myShape g = P
     \<and> int (length (myShapeRotations g)) = max 0 (int (length P) - 1)
     \<and> int (length (myShapeLengths g)) = max 0 (int (length P) - 1)
     \<and> (\<forall>i. Suc i < length P \<longrightarrow>
          myShapeRotations g ! i =
            atan2 (pos_x (P ! Suc i) - pos_x (P ! i)) (pos_y (P ! i) - pos_y (P ! Suc i)) * 180 / pi
        \<and> myShapeLengths g ! i =
            sqrt ((pos_x (P ! i) - pos_x (P ! Suc i))\<^sup>2 + (pos_y (P ! i) - pos_y (P ! Suc i))\<^sup>2))
     \<and> (length P \<le> 1 \<longrightarrow> myShapeRotations g = [] \<and> myShapeLengths g = [])"
  by (auto simp add: Geometry_of_shape_eq segmentRotations_def segmentLengths_def
      calculateRotation_def calculateLength_def distanceTo2D_def)

text \<open>
  Witness for C5: the three-point polyline (0,0), (3,0), (3,-4) has the rotations 90 and 0
  and the lengths 3 and 4; the single-point polyline (0,0) has empty arrays.
\<close>

theorem C5_caches_of_polyline_witness:
  "(\<exists>g. Geometry_of_shape [mkPosition 0 0, mkPosition 3 0, mkPosition 3 (- 4)] = Some g
     \<and> Suc 1 < length [mkPosition 0 0, mkPosition 3 0, mkPosition 3 (- 4)]
     \<and> myShapeRotations g ! 0 = 90 \<and> myShapeLengths g ! 0 = 3
     \<and> myShapeRotations g ! 1 = 0 \<and> myShapeLengths g ! 1 = 4)
   \<and> (\<exists>g. Geometry_of_shape [mkPosition 0 0] = Some g
     \<and> length [mkPosition 0 0] \<le> 1
     \<and> myShapeRotations g = [] \<and> myShapeLengths g = [])"
proof -
  let ?P = "[mkPosition 0 0, mkPosition 3 0, mkPosition 3 (- 4)]"
  from C5_caches_of_polyline [of ?P] obtain g where
    g: "Geometry_of_shape ?P = Some g" and
    e: "\<forall>i. Suc i < length ?P \<longrightarrow>
          myShapeRotations g ! i =
            atan2 (pos_x (?P ! Suc i) - pos_x (?P ! i)) (pos_y (?P ! i) - pos_y (?P ! Suc i))
              * 180 / pi
        \<and> myShapeLengths g ! i =
            sqrt ((pos_x (?P ! i) - pos_x (?P ! Suc i))\<^sup>2 + (pos_y (?P ! i) - pos_y (?P ! Suc i))\<^sup>2)"
    by blast
  have "myShapeRotations g ! 1 = 0 \<and> myShapeLengths g ! 1 = 4"
    using e [rule_format, of 1] by (simp add: mkPosition_def atan2_def)
  moreover have "myShapeRotations g ! 0 = 90 \<and> myShapeLengths g ! 0 = 3"
    using e [rule_format, of 0] by (simp add: mkPosition_def atan2_def)
  ultimately have first: "\<exists>g. Geometry_of_shape ?P = Some g
     \<and> Suc 1 < length ?P
     \<and> myShapeRotations g ! 0 = 90 \<and> myShapeLengths g ! 0 = 3
     \<and> myShapeRotations g ! 1 = 0 \<and> myShapeLengths g ! 1 = 4"
    using g by simp
  from C5_caches_of_polyline [of "[mkPosition 0 0]"] obtain h where
    "Geometry_of_shape [mkPosition 0 0] = Some h"
    "length [mkPosition 0 0] \<le> 1 \<longrightarrow> myShapeRotations h = [] \<and> myShapeLengths h = []"
    by blast
  then have "\<exists>g. Geometry_of_shape [mkPosition 0 0] = Some g
     \<and> length [mkPosition 0 0] \<le> 1
     \<and> myShapeRotations g = [] \<and> myShapeLengths g = []"
    by simp
  with first show ?thesis by blast
qed

section \<open>The caches after each operation\<close>

lemma recomputed_caches:
  "calculateShapeRotationsAndLengths g = Some g' \<Longrightarrow>
     myShape g' = myShape g \<and> cacheSizesInvariant g' \<and> cachesDescribeShape g'"
  by (auto simp add: calculateShapeRotationsAndLengths_eq cacheSizesInvariant_def
      cachesDescribeShape_def segmentRotations_def segmentLengths_def)

lemma recomputed_ex:
  "\<exists>g'. calculateShapeRotationsAndLengths g = Some g' \<and> myShape g' = myShape g
      \<and> cacheSizesInvariant g' \<and> cachesDescribeShape g'"
  using recomputed_caches [of g] by (simp add: calculateShapeRotationsAndLengths_eq)

text \<open>
  C3, as stated: after every construction and every update operation the caches would
  satisfy \<open>|rotations| = |lengths| = max(0, |shape| - 1)\<close>. The single-point update stores
  one position and one rotation: one rotation for a shape without any segment.
\<close>

theorem C3_counterexample:
  "\<not> cacheSizesInvariant (updateSinglePosGeometry Geometry_default (mkPosition 0 0) 0)"
  by (simp add: cacheSizesInvariant_def updateSinglePosGeometry_def clearGeometry_def
      Geometry_default_def)

text \<open>
  C3, amended: after the default construction, the construction from a polyline, the full
  replace, the start/end trimming and the trimming with extra end points, the invariant
  \<open>|rotations| = |lengths| = max(0, |shape| - 1)\<close> holds and entry \<open>i\<close> of both caches
  describes the segment from \<open>shape[i]\<close> to \<open>shape[i+1]\<close> of the stored shape. After the
  point-on-path projection and after the single-point update the geometry holds exactly
  one point, one rotation and no length. Scaling leaves the rotations as they are and
  multiplies every cached length by the factor.
\<close>

theorem C3_caches_after_operations:
  "cacheSizesInvariant Geometry_default \<and> cachesDescribeShape Geometry_default
   \<and> (\<exists>g'. Geometry_of_shape shape = Some g' \<and> myShape g' = shape
         \<and> cacheSizesInvariant g' \<and> cachesDescribeShape g')
   \<and> (\<exists>g'. updateGeometry g shape = Some g' \<and> myShape g' = shape
         \<and> cacheSizesInvariant g' \<and> cachesDescribeShape g')
   \<and> (\<exists>g'. updateGeometry_startEnd ops eps g shape startPos endPos lateralOffset = Some g'
         \<and> cacheSizesInvariant g' \<and> cachesDescribeShape g')
   \<and> (\<exists>g'. updateGeometry_trim ops eps invalid g shape beginTrim endTrim extraFirst extraLast
           = Some g'
         \<and> cacheSizesInvariant g' \<and> cachesDescribeShape g')
   \<and> length (myShape (updateGeometry_pos ops g shape posOverShape lateralOffset)) = 1
   \<and> length (myShapeRotations (updateGeometry_pos ops g shape posOverShape lateralOffset)) = 1
   \<and> myShapeLengths (updateGeometry_pos ops g shape posOverShape lateralOffset) = []
   \<and> myShape (updateSinglePosGeometry g position rotation) = [position]
   \<and> myShapeRotations (updateSinglePosGeometry g position rotation) = [rotation]
   \<and> myShapeLengths (updateSinglePosGeometry g position rotation) = []
   \<and> myShapeRotations (scaleGeometry ops g scale) = myShapeRotations g
   \<and> myShapeLengths (scaleGeometry ops g scale) = map (\<lambda>l. l * scale) (myShapeLengths g)"
proof -
  have a: "cacheSizesInvariant Geometry_default \<and> cachesDescribeShape Geometry_default"
    by (simp add: cacheSizesInvariant_def cachesDescribeShape_def Geometry_default_def
        segmentRotations_def segmentLengths_def)
  have b: "\<exists>g'. Geometry_of_shape shape = Some g' \<and> myShape g' = shape
         \<and> cacheSizesInvariant g' \<and> cachesDescribeShape g'"
    unfolding Geometry_of_shape_def
    using recomputed_ex [of "\<lparr>myShape = shape, myShapeRotations = [], myShapeLengths = []\<rparr>"]
    by simp
  have c: "\<exists>g'. updateGeometry g shape = Some g' \<and> myShape g' = shape
         \<and> cacheSizesInvariant g' \<and> cachesDescribeShape g'"
    unfolding updateGeometry_def
    using recomputed_ex [of "(clearGeometry g)\<lparr>myShape := shape\<rparr>"] by simp
  have d: "\<exists>g'. updateGeometry_startEnd ops eps g shape startPos endPos lateralOffset = Some g'
         \<and> cacheSizesInvariant g' \<and> cachesDescribeShape g'"
    unfolding updateGeometry_startEnd_def Let_def
    by (simp add: split_def) (use recomputed_ex in blast)
  have e: "\<exists>g'. updateGeometry_trim ops eps invalid g shape beginTrim endTrim extraFirst
             extraLast = Some g'
         \<and> cacheSizesInvariant g' \<and> cachesDescribeShape g'"
    unfolding updateGeometry_trim_def Let_def
    by (simp add: split_def) (use recomputed_ex in blast)
  have f: "length (myShape (updateGeometry_pos ops g shape posOverShape lateralOffset)) = 1
   \<and> length (myShapeRotations (updateGeometry_pos ops g shape posOverShape lateralOffset)) = 1
   \<and> myShapeLengths (updateGeometry_pos ops g shape posOverShape lateralOffset) = []"
    by (simp add: updateGeometry_pos_def Let_def clearGeometry_def)
  have h: "myShape (updateSinglePosGeometry g position rotation) = [position]
   \<and> myShapeRotations (updateSinglePosGeometry g position rotation) = [rotation]
   \<and> myShapeLengths (updateSinglePosGeometry g position rotation) = []"
    by (simp add: updateSinglePosGeometry_def clearGeometry_def)
  have k: "myShapeRotations (scaleGeometry ops g scale) = myShapeRotations g
   \<and> myShapeLengths (scaleGeometry ops g scale) = map (\<lambda>l. l * scale) (myShapeLengths g)"
    by (simp add: scaleGeometry_def)
  from a b c d e f h k show ?thesis by blast
qed

text \<open>
  Witness for C3: the polyline (0,0), (10,0) trimmed to the offsets 2 and 5 with the extra
  end points (0,0) and (10,0); the trimming branch is taken and the caches of the result
  satisfy the invariant. The point-on-path projection at offset 5 holds one rotation.
\<close>

theorem C3_caches_after_operations_witness:
  "(\<exists>g'. updateGeometry_trim xAxis_ops (1/10) example_INVALID Geometry_default
           [mkPosition 0 0, mkPosition 10 0] 2 5 (mkPosition 0 0) (mkPosition 10 0) = Some g'
         \<and> cacheSizesInvariant g' \<and> cachesDescribeShape g')
   \<and> length (myShapeRotations
        (updateGeometry_pos xAxis_ops Geometry_default [mkPosition 0 0, mkPosition 10 0] 5 0)) = 1"
  using C3_caches_after_operations
    [where ops = xAxis_ops and eps = "1/10" and invalid = example_INVALID
       and g = Geometry_default and shape = "[mkPosition 0 0, mkPosition 10 0]"
       and beginTrim = 2 and endTrim = 5 and extraFirst = "mkPosition 0 0"
       and extraLast = "mkPosition 10 0" and posOverShape = 5 and lateralOffset = 0]
  by blast

section \<open>Trimming with extra end points\<close>

text \<open>
  C10: in the variant with extra first and last positions, when both trim positions are
  the sentinel -1 the stored shape is the input shape, whatever the two extra positions
  are, and the operation is the full replace; when a trim position differs from -1, the
  stored shape is the clamped sub-path with the extra first position put in front and the
  extra last position put at the back, each only when it is not the invalid position.
\<close>

theorem C10_no_trim_keeps_shape:
  "updateGeometry_trim ops eps invalid g shape (- 1) (- 1) extraFirst extraLast =
     Some \<lparr>myShape = shape, myShapeRotations = segmentRotations shape,
           myShapeLengths = segmentLengths shape\<rparr>
   \<and> updateGeometry_trim ops eps invalid g shape (- 1) (- 1) extraFirst extraLast =
       updateGeometry g shape
   \<and> (beginTrim \<noteq> - 1 \<or> endTrim \<noteq> - 1 \<longrightarrow>
       (\<exists>g'. updateGeometry_trim ops eps invalid g shape beginTrim endTrim extraFirst extraLast
           = Some g'
         \<and> myShape g' =
            (let t0 = getSubpart2D ops shape
                        (fst (clampTrim eps (length2D ops shape) beginTrim endTrim))
                        (snd (clampTrim eps (length2D ops shape) beginTrim endTrim));
                 t1 = (if extraFirst \<noteq> invalid then push_front_noDoublePos ops t0 extraFirst
                       else t0)
             in if extraLast \<noteq> invalid then push_back_noDoublePos ops t1 extraLast else t1)))"
proof -
  have a: "updateGeometry_trim ops eps invalid g shape (- 1) (- 1) extraFirst extraLast =
     Some \<lparr>myShape = shape, myShapeRotations = segmentRotations shape,
           myShapeLengths = segmentLengths shape\<rparr>
   \<and> updateGeometry_trim ops eps invalid g shape (- 1) (- 1) extraFirst extraLast =
       updateGeometry g shape"
    by (simp add: updateGeometry_trim_def updateGeometry_def
        calculateShapeRotationsAndLengths_eq clearGeometry_def)
  have b: "\<exists>g'. updateGeometry_trim ops eps invalid g shape beginTrim endTrim extraFirst
             extraLast = Some g'
         \<and> myShape g' =
            (let t0 = getSubpart2D ops shape
                        (fst (clampTrim eps (length2D ops shape) beginTrim endTrim))
                        (snd (clampTrim eps (length2D ops shape) beginTrim endTrim));
                 t1 = (if extraFirst \<noteq> invalid then push_front_noDoublePos ops t0 extraFirst
                       else t0)
             in if extraLast \<noteq> invalid then push_back_noDoublePos ops t1 extraLast else t1)"
    if "beginTrim \<noteq> - 1 \<or> endTrim \<noteq> - 1"
    using that
    by (simp add: updateGeometry_trim_def calculateShapeRotationsAndLengths_eq clearGeometry_def
        Let_def split_def)
  from a b show ?thesis by blast
qed

text \<open>
  Witness for C10: the polyline (0,0), (0,10) with both trim positions -1 and the valid
  extra positions (5,5) and (7,7) is stored unchanged; the polyline (0,0), (10,0) trimmed
  to the offsets 2 and 5 with the same extra positions becomes (5,5), (2,0), (5,0), (7,7).
\<close>

theorem C10_no_trim_keeps_shape_witness:
  "updateGeometry_trim xAxis_ops (1/10) example_INVALID Geometry_default
       [mkPosition 0 0, mkPosition 0 10] (- 1) (- 1) (mkPosition 5 5) (mkPosition 7 7) =
     Some \<lparr>myShape = [mkPosition 0 0, mkPosition 0 10], myShapeRotations = [180],
           myShapeLengths = [10]\<rparr>
   \<and> (\<exists>g'. updateGeometry_trim xAxis_ops (1/10) example_INVALID Geometry_default
           [mkPosition 0 0, mkPosition 10 0] 2 5 (mkPosition 5 5) (mkPosition 7 7) = Some g'
         \<and> myShape g' = [mkPosition 5 5, mkPosition 2 0, mkPosition 5 0, mkPosition 7 7])"
proof -
  have t: "(2::real) \<noteq> - 1 \<or> (5::real) \<noteq> - 1" by simp
  have a: "updateGeometry_trim xAxis_ops (1/10) example_INVALID Geometry_default
       [mkPosition 0 0, mkPosition 0 10] (- 1) (- 1) (mkPosition 5 5) (mkPosition 7 7) =
     Some \<lparr>myShape = [mkPosition 0 0, mkPosition 0 10], myShapeRotations = [180],
           myShapeLengths = [10]\<rparr>"
    using C10_no_trim_keeps_shape [of xAxis_ops "1/10" example_INVALID Geometry_default
        "[mkPosition 0 0, mkPosition 0 10]" "mkPosition 5 5" "mkPosition 7 7"]
    by (simp add: two_point_caches calculateRotation_vertical mkPosition_def
        calculateLength_def distanceTo2D_def)
  have r: "(let t0 = getSubpart2D xAxis_ops [mkPosition 0 0, mkPosition 10 0]
                (fst (clampTrim (1/10) (length2D xAxis_ops [mkPosition 0 0, mkPosition 10 0]) 2 5))
                (snd (clampTrim (1/10) (length2D xAxis_ops [mkPosition 0 0, mkPosition 10 0]) 2 5));
               t1 = (if mkPosition 5 5 \<noteq> example_INVALID
                     then push_front_noDoublePos xAxis_ops t0 (mkPosition 5 5) else t0)
           in if mkPosition 7 7 \<noteq> example_INVALID
              then push_back_noDoublePos xAxis_ops t1 (mkPosition 7 7) else t1)
        = [mkPosition 5 5, mkPosition 2 0, mkPosition 5 0, mkPosition 7 7]"
    by (simp add: xAxis_ops_def clampTrim_def mkPosition_def example_INVALID_def Let_def)
  have b: "\<exists>g'. updateGeometry_trim xAxis_ops (1/10) example_INVALID Geometry_default
           [mkPosition 0 0, mkPosition 10 0] 2 5 (mkPosition 5 5) (mkPosition 7 7) = Some g'
         \<and> myShape g' = [mkPosition 5 5, mkPosition 2 0, mkPosition 5 0, mkPosition 7 7]"
    using C10_no_trim_keeps_shape [where ops = xAxis_ops and eps = "1/10"
        and invalid = example_INVALID and g = Geometry_default
        and shape = "[mkPosition 0 0, mkPosition 10 0]" and beginTrim = 2 and endTrim = 5
        and extraFirst = "mkPosition 5 5" and extraLast = "mkPosition 7 7"] t
    unfolding r by blast
  from a b show ?thesis by blast
qed

section \<open>Alternating colours\<close>

text \<open>
  C6: for every colour alternator and every recognized contour type, a call of
  \<^verbatim>\<open>getColor\<close> flips the flag and returns the first colour of the type when the flag was
  set and the second colour otherwise, so two consecutive calls with the same type return
  the two different colours of that type (the colours themselves are constants defined
  outside the file; they are different whenever the type's two constants are). For an
  unrecognized type the call returns the fallback colour black and leaves the object as
  it is.
\<close>

theorem C6_alternation:
  "(recognized t \<longrightarrow>
      snd (getColor rgb c t) = c\<lparr>myColorFlag := \<not> myColorFlag c\<rparr>
    \<and> fst (getColor rgb c t) =
        (if myColorFlag c then firstColor rgb (mySettings c) t
         else secondColor rgb (mySettings c) t)
    \<and> (firstColor rgb (mySettings c) t \<noteq> secondColor rgb (mySettings c) t \<longrightarrow>
         fst (getColor rgb (snd (getColor rgb c t)) t) \<noteq> fst (getColor rgb c t)))
   \<and> (\<not> recognized t \<longrightarrow> getColor rgb c t = (RGBColor_BLACK rgb, c))"
  by (cases t) auto

text \<open>
  Witness for C6: a fresh alternator asked twice for GREEN returns two different colours;
  asked for an unrecognized type it returns black and is unchanged.
\<close>

theorem C6_alternation_witness:
  "recognized GREEN \<and> \<not> recognized (UNRECOGNIZED 7)
   \<and> firstColor example_rgb (mySettings (DottedGeometryColor_of example_settings)) GREEN
       \<noteq> secondColor example_rgb (mySettings (DottedGeometryColor_of example_settings)) GREEN
   \<and> fst (getColor example_rgb
            (snd (getColor example_rgb (DottedGeometryColor_of example_settings) GREEN)) GREEN)
       \<noteq> fst (getColor example_rgb (DottedGeometryColor_of example_settings) GREEN)
   \<and> getColor example_rgb (DottedGeometryColor_of example_settings) (UNRECOGNIZED 7)
       = (RGBColor_BLACK example_rgb, DottedGeometryColor_of example_settings)"
proof -
  have r: "recognized GREEN" "\<not> recognized (UNRECOGNIZED 7)" by simp_all
  have d: "firstColor example_rgb (mySettings (DottedGeometryColor_of example_settings)) GREEN
       \<noteq> secondColor example_rgb (mySettings (DottedGeometryColor_of example_settings)) GREEN"
    by (simp add: example_rgb_def)
  from C6_alternation [of GREEN example_rgb "DottedGeometryColor_of example_settings"] r(1) d
  have "fst (getColor example_rgb
            (snd (getColor example_rgb (DottedGeometryColor_of example_settings) GREEN)) GREEN)
       \<noteq> fst (getColor example_rgb (DottedGeometryColor_of example_settings) GREEN)"
    by blast
  moreover
  from C6_alternation [of "UNRECOGNIZED 7" example_rgb "DottedGeometryColor_of example_settings"] r(2)
  have "getColor example_rgb (DottedGeometryColor_of example_settings) (UNRECOGNIZED 7)
       = (RGBColor_BLACK example_rgb, DottedGeometryColor_of example_settings)"
    by blast
  ultimately show ?thesis using r d by blast
qed

section \<open>The sampling step of a dotted contour\<close>

lemma rawSegmentsLoop_Some:
  "1 \<le> i \<Longrightarrow>
   rawSegmentsLoop shape i segments =
     Some (segments @
       map (\<lambda>k. Segment_of_shape [shape ! (k - 1), shape ! k]) [nat i..<length shape])"
proof (induction shape i segments rule: rawSegmentsLoop.induct)
  case (1 shape i segments)
  show ?case
  proof (cases "i < int (length shape)")
    case False
    then have "[nat i..<length shape] = []" by simp
    with False show ?thesis by (subst rawSegmentsLoop.simps) simp
  next
    case True
    with "1.prems" have rd: "at_index shape (i - 1) = Some (shape ! (nat i - 1))"
      "at_index shape i = Some (shape ! nat i)"
      by (simp_all add: at_index_def nat_diff_distrib)
    from True "1.prems" have up: "[nat i..<length shape] = nat i # [nat (i + 1)..<length shape]"
      by (simp add: upt_conv_Cons nat_add_distrib)
    have ih: "rawSegmentsLoop shape (i + 1)
          (segments @ [Segment_of_shape [shape ! (nat i - 1), shape ! nat i]]) =
        Some ((segments @ [Segment_of_shape [shape ! (nat i - 1), shape ! nat i]]) @
          map (\<lambda>k. Segment_of_shape [shape ! (k - 1), shape ! k]) [nat (i + 1)..<length shape])"
      using "1.IH" [OF True rd(1) rd(2)] "1.prems" by simp
    show ?thesis
      by (subst rawSegmentsLoop.simps) (use ih in \<open>simp add: True rd up\<close>)
  qed
qed

lemma segmentRotationsAndLengthsLoop_shape:
  "0 \<le> i \<Longrightarrow> n < int (length (seg_shape segment)) \<Longrightarrow>
   \<exists>segment'. segmentRotationsAndLengthsLoop n i segment = Some segment'
      \<and> seg_shape segment' = seg_shape segment"
proof (induction n i segment rule: segmentRotationsAndLengthsLoop.induct)
  case (1 n i segment)
  show ?case
  proof (cases "i < n")
    case False
    then show ?thesis by (subst segmentRotationsAndLengthsLoop.simps) simp
  next
    case True
    with "1.prems" have rd:
      "at_index (seg_shape segment) i = Some (seg_shape segment ! nat i)"
      "at_index (seg_shape segment) (i + 1) = Some (seg_shape segment ! Suc (nat i))"
      by (simp_all add: at_index_def nat_add_distrib)
    from "1.IH" [OF True rd(1) rd(2)] "1.prems"
    obtain segment' where
      "segmentRotationsAndLengthsLoop n (i + 1)
         (segment\<lparr>seg_rotations := seg_rotations segment @
              [calculateRotation (seg_shape segment ! nat i) (seg_shape segment ! Suc (nat i))],
            seg_lengths := seg_lengths segment @
              [calculateLength (seg_shape segment ! nat i) (seg_shape segment ! Suc (nat i))]\<rparr>)
         = Some segment'"
      "seg_shape segment' = seg_shape segment"
      by auto
    then show ?thesis
      by (subst segmentRotationsAndLengthsLoop.simps) (simp add: True rd)
  qed
qed

lemma segmentRotationsAndLengths_shape:
  "\<exists>segment'. segmentRotationsAndLengths segment = Some segment'
      \<and> seg_shape segment' = seg_shape segment"
proof (cases "seg_shape segment = []")
  case True
  then show ?thesis by (simp add: segmentRotationsAndLengths_def)
next
  case False
  then have "0 < length (seg_shape segment)" by simp
  then show ?thesis
    using segmentRotationsAndLengthsLoop_shape
      [of 0 "int (length (seg_shape segment)) - 1" segment]
    by (simp add: segmentRotationsAndLengths_def Let_def)
qed

lemma calculateSegments_shapes:
  "\<exists>segments'. calculateSegments segments = Some segments'
      \<and> map seg_shape segments' = map seg_shape segments"
proof (induction segments)
  case Nil
  then show ?case by simp
next
  case (Cons segment rest)
  from segmentRotationsAndLengths_shape [of segment] obtain segment' where
    s: "segmentRotationsAndLengths segment = Some segment'" "seg_shape segment' = seg_shape segment"
    by blast
  from Cons.IH obtain rest' where
    r: "calculateSegments rest = Some rest'" "map seg_shape rest' = map seg_shape rest"
    by blast
  from s r show ?case by simp
qed

lemma rawPairs_shapes:
  "map seg_shape (map (\<lambda>k. Segment_of_shape [shape ! (k - 1), shape ! k]) [1..<length shape])
     = rawPairs shape"
proof -
  have "[1..<length shape] = map Suc [0..<length shape - 1]"
    by (cases "length shape") (simp_all add: map_Suc_upt)
  then show ?thesis
    by (simp add: rawPairs_def Segment_of_shape_def comp_def)
qed

lemma DottedGeometry_of_shape_shapes:
  "\<exists>dg. DottedGeometry_of_shape ops s shape0 closeShape = Some dg
     \<and> myWidth dg = segmentWidth s
     \<and> map seg_shape (myDottedGeometrySegments dg) =
         map (\<lambda>pair. resample ops pair
                (if length2D ops (shapeToResample ops shape0 closeShape) > 500
                 then length2D ops (shapeToResample ops shape0 closeShape) / 250
                 else segmentLength s) True)
             (rawPairs (shapeToResample ops shape0 closeShape))"
proof -
  define shape where "shape = shapeToResample ops shape0 closeShape"
  define step where
    "step = (if length2D ops shape > 500 then length2D ops shape / 250 else segmentLength s)"
  have st: "(if length2D ops shape > MAXIMUM_DOTTEDGEOMETRYLENGTH
             then length2D ops shape / (MAXIMUM_DOTTEDGEOMETRYLENGTH * 0.5)
             else segmentLength s) = step"
    by (simp add: step_def MAXIMUM_DOTTEDGEOMETRYLENGTH_def)
  have unf: "DottedGeometry_of_shape ops s shape0 closeShape =
      (if length shape > 1
       then (case rawSegmentsLoop shape 1 [] of
               None \<Rightarrow> None
             | Some segments \<Rightarrow>
                DottedGeometry_calculateShapeRotationsAndLengths
                  \<lparr>myWidth = segmentWidth s,
                   myDottedGeometrySegments =
                     map (\<lambda>segment. segment\<lparr>seg_shape :=
                            resample ops (seg_shape segment) step True\<rparr>) segments\<rparr>)
       else Some \<lparr>myWidth = segmentWidth s, myDottedGeometrySegments = []\<rparr>)"
    unfolding DottedGeometry_of_shape_def Let_def shape_def [symmetric] st
    by (simp cong: option.case_cong)
  have "\<exists>dg. DottedGeometry_of_shape ops s shape0 closeShape = Some dg
     \<and> myWidth dg = segmentWidth s
     \<and> map seg_shape (myDottedGeometrySegments dg) =
         map (\<lambda>pair. resample ops pair step True) (rawPairs shape)"
  proof (cases "length shape > 1")
    case False
    then have "rawPairs shape = []" by (simp add: rawPairs_def)
    with False show ?thesis by (simp add: unf)
  next
    case True
    let ?raw = "map (\<lambda>k. Segment_of_shape [shape ! (k - 1), shape ! k]) [1..<length shape]"
    let ?res = "map (\<lambda>segment. segment\<lparr>seg_shape := resample ops (seg_shape segment) step True\<rparr>)
                  ?raw"
    have raw: "rawSegmentsLoop shape 1 [] = Some ?raw"
      using rawSegmentsLoop_Some [of 1 shape "[]"] by simp
    from calculateSegments_shapes [of ?res] obtain segments' where
      c: "calculateSegments ?res = Some segments'" "map seg_shape segments' = map seg_shape ?res"
      by blast
    have sh: "map seg_shape ?res = map (\<lambda>pair. resample ops pair step True) (rawPairs shape)"
      unfolding rawPairs_shapes [symmetric] by (simp add: comp_def)
    have "DottedGeometry_of_shape ops s shape0 closeShape =
        Some \<lparr>myWidth = segmentWidth s, myDottedGeometrySegments = segments'\<rparr>"
      unfolding unf raw using True c(1)
      by (simp add: DottedGeometry_calculateShapeRotationsAndLengths_def)
    with c(2) sh show ?thesis by simp
  qed
  then show ?thesis unfolding step_def shape_def .
qed

text \<open>
  C7: the constructor of a dotted geometry from a polyline always returns, and every raw
  two-point segment of the (possibly closed) polyline is resampled with the same step:
  the configured segment length when the total 2D length of the polyline is at most 500,
  and that total length divided by 250 when it exceeds 500.
\<close>

theorem C7_sampling_step:
  "(length2D ops (shapeToResample ops shape0 closeShape) \<le> 500 \<longrightarrow>
      (\<exists>dg. DottedGeometry_of_shape ops s shape0 closeShape = Some dg
         \<and> map seg_shape (myDottedGeometrySegments dg) =
             map (\<lambda>pair. resample ops pair (segmentLength s) True)
                 (rawPairs (shapeToResample ops shape0 closeShape))))
   \<and> (length2D ops (shapeToResample ops shape0 closeShape) > 500 \<longrightarrow>
      (\<exists>dg. DottedGeometry_of_shape ops s shape0 closeShape = Some dg
         \<and> map seg_shape (myDottedGeometrySegments dg) =
             map (\<lambda>pair. resample ops pair
                    (length2D ops (shapeToResample ops shape0 closeShape) / 250) True)
                 (rawPairs (shapeToResample ops shape0 closeShape))))"
  using DottedGeometry_of_shape_shapes [of ops s shape0 closeShape] by auto

text \<open>
  Witness for C7: with the configured segment length 2, the polyline from (0,0) to (10,0)
  is resampled with step 2 and the polyline from (0,0) to (600,0) with step 600 / 250.
\<close>

theorem C7_sampling_step_witness:
  "length2D xAxis_ops (shapeToResample xAxis_ops [mkPosition 0 0, mkPosition 10 0] False) \<le> 500
   \<and> (\<exists>dg. DottedGeometry_of_shape xAxis_ops example_settings
             [mkPosition 0 0, mkPosition 10 0] False = Some dg
         \<and> map seg_shape (myDottedGeometrySegments dg) =
             [[mkPosition 0 0, mkPosition 2 0, mkPosition 10 0]])
   \<and> length2D xAxis_ops (shapeToResample xAxis_ops [mkPosition 0 0, mkPosition 600 0] False) > 500
   \<and> (\<exists>dg. DottedGeometry_of_shape xAxis_ops example_settings
             [mkPosition 0 0, mkPosition 600 0] False = Some dg
         \<and> map seg_shape (myDottedGeometrySegments dg) =
             [[mkPosition 0 0, mkPosition (12/5) 0, mkPosition 600 0]])"
proof -
  have a: "length2D xAxis_ops (shapeToResample xAxis_ops [mkPosition 0 0, mkPosition 10 0] False) \<le> 500"
    by (simp add: xAxis_ops_def shapeToResample_def mkPosition_def)
  have b: "length2D xAxis_ops (shapeToResample xAxis_ops [mkPosition 0 0, mkPosition 600 0] False) > 500"
    by (simp add: xAxis_ops_def shapeToResample_def mkPosition_def)
  have ra: "map (\<lambda>pair. resample xAxis_ops pair (segmentLength example_settings) True)
                 (rawPairs (shapeToResample xAxis_ops [mkPosition 0 0, mkPosition 10 0] False))
      = [[mkPosition 0 0, mkPosition 2 0, mkPosition 10 0]]"
    by (simp add: xAxis_ops_def shapeToResample_def mkPosition_def rawPairs_def example_settings_def)
  have rb: "map (\<lambda>pair. resample xAxis_ops pair
          (length2D xAxis_ops (shapeToResample xAxis_ops [mkPosition 0 0, mkPosition 600 0] False) / 250) True)
                 (rawPairs (shapeToResample xAxis_ops [mkPosition 0 0, mkPosition 600 0] False))
      = [[mkPosition 0 0, mkPosition (12/5) 0, mkPosition 600 0]]"
    by (simp add: xAxis_ops_def shapeToResample_def mkPosition_def rawPairs_def)
  from C7_sampling_step [of xAxis_ops "[mkPosition 0 0, mkPosition 10 0]" False example_settings] a
  have "\<exists>dg. DottedGeometry_of_shape xAxis_ops example_settings
             [mkPosition 0 0, mkPosition 10 0] False = Some dg
         \<and> map seg_shape (myDottedGeometrySegments dg) =
             [[mkPosition 0 0, mkPosition 2 0, mkPosition 10 0]]"
    unfolding ra by blast
  moreover
  from C7_sampling_step [of xAxis_ops "[mkPosition 0 0, mkPosition 600 0]" False example_settings] b
  have "\<exists>dg. DottedGeometry_of_shape xAxis_ops example_settings
             [mkPosition 0 0, mkPosition 600 0] False = Some dg
         \<and> map seg_shape (myDottedGeometrySegments dg) =
             [[mkPosition 0 0, mkPosition (12/5) 0, mkPosition 600 0]]"
    unfolding rb by (simp only: not_le [symmetric]) blast
  ultimately show ?thesis using a b by blast
qed

section \<open>Looking an angle up in the circle table\<close>

lemma length_fillCircleCoords: "length fillCircleCoords = 3601"
  by (simp add: fillCircleCoords_def)

lemma c_remainder_wrap:
  fixes k n :: int
  assumes "0 < n"
  shows "(if k smod n < 0 then k smod n + n else k smod n) = k mod n"
proof (cases "sgn k \<noteq> sgn n \<and> \<not> n dvd k")
  case True
  then have "k smod n = k mod n - n" by (simp add: signed_modulo_int_eq_modulo_int)
  moreover have "k mod n < n" using assms by simp
  ultimately show ?thesis by simp
next
  case False
  then have "k smod n = k mod n" by (simp add: signed_modulo_int_eq_modulo_int)
  moreover have "0 \<le> k mod n" using assms by simp
  ultimately show ?thesis by simp
qed

lemma int_of_double_of_int:
  "int_of_double (of_int k) = (if in_int_range k then Some k else None)"
  by (simp add: int_of_double_def)

lemma angleLookup_filled:
  "angleLookup fillCircleCoords x =
     (if in_int_range (roundedScaledAngle x) then Some (roundedScaledAngle x mod 3600) else None)"
proof -
  define k where "k = roundedScaledAngle x"
  have w: "(if k smod 3600 < 0 then k smod 3600 + 3600 else k smod 3600) = k mod 3600"
    by (rule c_remainder_wrap) simp
  have nn: "0 \<le> k mod 3600" by simp
  have n: "int (length fillCircleCoords) - 1 = 3600"
    by (simp add: length_fillCircleCoords)
  have "angleLookup fillCircleCoords x = (if in_int_range k then Some (k mod 3600) else None)"
  proof (cases "in_int_range k")
    case False
    then show ?thesis
      unfolding angleLookup_def k_def [symmetric] n int_of_double_of_int Let_def by simp
  next
    case True
    then have "angleLookup fillCircleCoords x =
        (if 0 \<le> (if k smod 3600 < 0 then k smod 3600 + 3600 else k smod 3600)
         then Some (if k smod 3600 < 0 then k smod 3600 + 3600 else k smod 3600) else None)"
      unfolding angleLookup_def k_def [symmetric] n int_of_double_of_int Let_def by simp
    also have "\<dots> = Some (k mod 3600)"
      unfolding w using nn by simp
    finally show ?thesis using True by simp
  qed
  then show ?thesis unfolding k_def .
qed

text \<open>
  Rounding to a double: the value when the binary exponent is known, and the numbers
  \<open>k / 2 ^ j\<close> with \<open>|k| < 2 ^ 53\<close>, which are doubles and so are not changed.
\<close>

lemma round_even_of_int: "round_even (of_int j) = j"
  by (simp add: round_even_def)

lemma double_round_eval:
  assumes "2 powr of_int e \<le> \<bar>x\<bar>" and "\<bar>x\<bar> < 2 powr of_int (e + 1)" and "- 1022 \<le> e"
  shows "double_round x =
           of_int (round_even (x / 2 powr of_int (e - 52))) * 2 powr of_int (e - 52)"
proof -
  have pos: "0 < \<bar>x\<bar>" using assms(1) by (smt (verit) powr_gt_zero)
  then have nz: "x \<noteq> 0" by simp
  have "\<lfloor>log 2 \<bar>x\<bar>\<rfloor> = e"
    using assms(1,2) pos by (subst floor_log_eq_powr_iff) (simp_all add: add.commute)
  with assms(3) have "max \<lfloor>log 2 \<bar>x\<bar>\<rfloor> (- 1022) = e" by simp
  with nz show ?thesis by (simp add: double_round_def Let_def)
qed

lemma double_round_dyadic:
  assumes "\<bar>k\<bar> < 2 ^ 53" and "j \<le> 1022"
  shows "double_round (of_int k / 2 ^ j) = of_int k / 2 ^ j"
proof (cases "k = 0")
  case True
  then show ?thesis by (simp add: double_round_def)
next
  case False
  define x :: real where "x = of_int k / 2 ^ j"
  define e where "e = \<lfloor>log 2 \<bar>x\<bar>\<rfloor>"
  have pos: "0 < \<bar>x\<bar>" using False by (simp add: x_def)
  have lo: "1 / 2 ^ j \<le> \<bar>x\<bar>"
  proof -
    from False have "1 \<le> \<bar>k\<bar>" by simp
    then have "1 \<le> \<bar>real_of_int k\<bar>" by (metis of_int_1_le_iff of_int_abs)
    then show ?thesis by (simp add: x_def divide_right_mono)
  qed
  have hi: "\<bar>x\<bar> * 2 ^ j < 2 ^ 53"
  proof -
    from assms(1) have "real_of_int \<bar>k\<bar> < 2 ^ 53"
      by (metis of_int_less_numeral_power_cancel_iff)
    then show ?thesis by (simp add: x_def)
  qed
  have e_lo: "- int j \<le> e"
  proof -
    have "(2::real) powr (- real j) = 1 / 2 ^ j"
      by (simp add: powr_minus_divide powr_realpow)
    with lo have "2 powr (- real j) \<le> \<bar>x\<bar>" by simp
    then have "- real j \<le> log 2 \<bar>x\<bar>" using pos by (simp add: le_log_iff)
    then show ?thesis unfolding e_def by (simp add: le_floor_iff)
  qed
  have e_hi: "e \<le> 52 - int j"
  proof -
    have "(2::real) powr (53 - real j) = 2 ^ 53 / 2 ^ j"
      by (simp add: powr_diff powr_realpow)
    moreover from hi have "\<bar>x\<bar> < 2 ^ 53 / 2 ^ j" by (simp add: pos_less_divide_eq)
    ultimately have "\<bar>x\<bar> < 2 powr (53 - real j)" by simp
    then have "log 2 \<bar>x\<bar> < 53 - real j" using pos by (simp add: log_less_iff)
    then have "\<lfloor>log 2 \<bar>x\<bar>\<rfloor> < 53 - int j" by (simp add: floor_less_iff)
    then show ?thesis unfolding e_def by simp
  qed
  have b: "2 powr of_int e \<le> \<bar>x\<bar>" "\<bar>x\<bar> < 2 powr of_int (e + 1)"
    using floor_log_eq_powr_iff [of "\<bar>x\<bar>" 2 e] pos unfolding e_def by (simp_all add: add.commute)
  define n where "n = nat (52 - int j - e)"
  have u: "(2::real) powr of_int (e - 52) = 1 / (2 ^ j * 2 ^ n)"
  proof -
    have "e - 52 = - int (j + n)" using e_hi by (simp add: n_def)
    then have "(2::real) powr real_of_int (e - 52) = 2 powr (- real (j + n))" by simp
    also have "\<dots> = 1 / 2 powr real (j + n)" by (rule powr_minus_divide)
    also have "(2::real) powr real (j + n) = 2 ^ (j + n)" by (rule powr_realpow) simp
    finally show ?thesis by (simp add: power_add)
  qed
  have q: "x / 2 powr of_int (e - 52) = of_int (k * 2 ^ n)"
    unfolding u by (simp add: x_def)
  have "double_round x = of_int (round_even (x / 2 powr of_int (e - 52))) * 2 powr of_int (e - 52)"
    using b e_lo assms(2) by (intro double_round_eval) simp_all
  also have "\<dots> = of_int (k * 2 ^ n) * 2 powr of_int (e - 52)"
    by (simp only: q round_even_of_int)
  also have "\<dots> = of_int (k * 2 ^ n) * (1 / (2 ^ j * 2 ^ n))"
    by (simp only: u)
  also have "\<dots> = x" by (simp add: x_def)
  finally show ?thesis by (simp add: x_def)
qed

lemma roundedScaledAngle_dyadic:
  assumes "\<bar>10 * m\<bar> + 2 ^ q < 2 ^ 53" and "0 < q"
  shows "roundedScaledAngle (of_int m / 2 ^ q) = (10 * m + 2 ^ (q - 1)) div 2 ^ q"
proof -
  have q53: "(2::int) ^ q < 2 ^ 53"
    using assms(1) abs_ge_zero [of "10 * m"] by linarith
  have "q < 53" by (rule power_less_imp_less_exp [OF _ q53]) simp
  then have q1022: "q \<le> 1022" by simp
  have half: "(2::int) ^ (q - 1) \<le> 2 ^ q" by (simp add: power_increasing)
  have p0: "(0::int) < 2 ^ (q - 1)" "(0::int) < 2 ^ q" by simp_all
  have a: "\<bar>10 * m\<bar> < 2 ^ 53" "\<bar>10 * m + 2 ^ (q - 1)\<bar> < 2 ^ 53"
    using assms(1) half p0 by linarith+
  have h: "(0.5 :: real) = 2 ^ (q - 1) / 2 ^ q"
    using assms(2) by (cases q) simp_all
  have "double_mult (of_int m / 2 ^ q) CIRCLE_RESOLUTION = double_round (of_int (10 * m) / 2 ^ q)"
    by (simp add: double_mult_def CIRCLE_RESOLUTION_def mult.commute)
  also have "\<dots> = of_int (10 * m) / 2 ^ q" using a(1) q1022 by (rule double_round_dyadic)
  finally have p: "double_mult (of_int m / 2 ^ q) CIRCLE_RESOLUTION = of_int (10 * m) / 2 ^ q" .
  have "double_add (of_int (10 * m) / 2 ^ q) 0.5 =
      double_round (of_int (10 * m + 2 ^ (q - 1)) / 2 ^ q)"
    unfolding double_add_def h by (simp add: add_divide_distrib)
  also have "\<dots> = of_int (10 * m + 2 ^ (q - 1)) / 2 ^ q"
    using a(2) q1022 by (rule double_round_dyadic)
  finally have s: "double_add (of_int (10 * m) / 2 ^ q) 0.5 =
      of_int (10 * m + 2 ^ (q - 1)) / 2 ^ q" .
  have "\<lfloor>real_of_int (10 * m + 2 ^ (q - 1)) / 2 ^ q\<rfloor> = (10 * m + 2 ^ (q - 1)) div 2 ^ q"
    using floor_divide_of_int_eq [of "10 * m + 2 ^ (q - 1)" "2 ^ q", where ?'a = real] by simp
  then show ?thesis unfolding roundedScaledAngle_def p s .
qed

lemma double_add_360_dyadic:
  assumes "\<bar>10 * m\<bar> + 3601 * 2 ^ q < 2 ^ 53"
  shows "double_add (of_int m / 2 ^ q) 360 = of_int (m + 360 * 2 ^ q) / 2 ^ q"
proof -
  have pos: "(0::int) < 2 ^ q" by simp
  have q53: "(2::int) ^ q < 2 ^ 53" using assms pos by linarith
  have "q < 53" by (rule power_less_imp_less_exp [OF _ q53]) simp
  then have q1022: "q \<le> 1022" by simp
  have a: "\<bar>m + 360 * 2 ^ q\<bar> < 2 ^ 53" using assms pos by linarith
  have "double_add (of_int m / 2 ^ q) 360 = double_round (of_int (m + 360 * 2 ^ q) / 2 ^ q)"
    by (simp add: double_add_def add_divide_distrib)
  also have "\<dots> = of_int (m + 360 * 2 ^ q) / 2 ^ q" using a q1022 by (rule double_round_dyadic)
  finally show ?thesis .
qed

lemma roundedScaledAngle_shift_dyadic:
  assumes "\<bar>10 * m\<bar> + 3601 * 2 ^ q < 2 ^ 53" and "0 < q"
  shows "roundedScaledAngle (double_add (of_int m / 2 ^ q) 360) =
           roundedScaledAngle (of_int m / 2 ^ q) + 3600"
proof -
  have pos: "(0::int) < 2 ^ q" by simp
  have a: "\<bar>10 * m\<bar> + 2 ^ q < 2 ^ 53" using assms(1) pos by linarith
  have "\<bar>10 * (m + 360 * 2 ^ q)\<bar> \<le> \<bar>10 * m\<bar> + 3600 * 2 ^ q"
    using abs_triangle_ineq [of "10 * m" "3600 * 2 ^ q"] by (simp add: algebra_simps)
  then have b: "\<bar>10 * (m + 360 * 2 ^ q)\<bar> + 2 ^ q < 2 ^ 53" using assms(1) by linarith
  have "roundedScaledAngle (double_add (of_int m / 2 ^ q) 360) =
      (10 * (m + 360 * 2 ^ q) + 2 ^ (q - 1)) div 2 ^ q"
    unfolding double_add_360_dyadic [OF assms(1)] using b assms(2)
    by (rule roundedScaledAngle_dyadic)
  also have "10 * (m + 360 * 2 ^ q) + 2 ^ (q - 1) = (10 * m + 2 ^ (q - 1)) + 3600 * 2 ^ q"
    by (simp add: algebra_simps)
  also have "(10 * m + 2 ^ (q - 1) + 3600 * 2 ^ q) div 2 ^ q =
      (10 * m + 2 ^ (q - 1)) div 2 ^ q + 3600"
    by simp
  finally show ?thesis using roundedScaledAngle_dyadic [OF a assms(2)] by simp
qed

lemma roundedScaledAngle_tie:
  "roundedScaledAngle (- 2281266725309645 / 8796093022208) = - 2593"
proof -
  have m1: "double_mult (- 2281266725309645 / 8796093022208) CIRCLE_RESOLUTION = - 5187 / 2"
    unfolding double_mult_def CIRCLE_RESOLUTION_def
    by (subst double_round_eval [where e = 11])
      (simp_all add: round_even_def powr_neg_numeral)
  have a1: "double_add (- 5187 / 2) 0.5 = - 2593"
    unfolding double_add_def using double_round_dyadic [of "- 2593" 0] by simp
  show ?thesis unfolding roundedScaledAngle_def m1 a1 by simp
qed

lemma double_add_360_tie:
  "double_add (- 2281266725309645 / 8796093022208) 360 = 885326762685235 / 8796093022208"
  unfolding double_add_def using double_round_dyadic [of 885326762685235 43] by simp

lemma roundedScaledAngle_tie_shifted:
  "roundedScaledAngle (885326762685235 / 8796093022208) = 1006"
proof -
  have m2: "double_mult (885326762685235 / 8796093022208) CIRCLE_RESOLUTION =
      4426633813426175 / 4398046511104"
    unfolding double_mult_def CIRCLE_RESOLUTION_def
    using double_round_dyadic [of 4426633813426175 42] by simp
  have a2: "double_add (4426633813426175 / 4398046511104) 0.5 =
      4428832836681727 / 4398046511104"
    unfolding double_add_def using double_round_dyadic [of 4428832836681727 42] by simp
  show ?thesis unfolding roundedScaledAngle_def m2 a2 by simp
qed

text \<open>
  C8, as stated: with the table of 3601 entries, \<open>angleLookup(x) = angleLookup(x + 360)\<close>
  would hold for every angle \<open>x\<close>. Take for \<open>x\<close> the double nearest to -259.35, which is
  \<open>-2281266725309645 / 2 ^ 43\<close>. The exact product \<open>10 x\<close> lies half way between two doubles
  and is rounded to -2593.5, so the lookup floors -2593 and returns 1007. The sum
  \<open>x + 360\<close> is exact, its product with 10 and the sum with 0.5 are exact as well and lie
  just below 1007, so the lookup returns 1006. Independently of rounding, for
  \<open>x = 214748364\<close> the rounded value 2147483640 is an \<^verbatim>\<open>int\<close> and the index is 840, while
  for \<open>x + 360\<close> the value 2147487240 is above the largest \<^verbatim>\<open>int\<close> and the conversion has no
  defined result.
\<close>

theorem C8_counterexample:
  "double_round (- 2281266725309645 / 8796093022208) = - 2281266725309645 / 8796093022208
   \<and> angleLookup fillCircleCoords (- 2281266725309645 / 8796093022208) = Some 1007
   \<and> angleLookup fillCircleCoords (double_add (- 2281266725309645 / 8796093022208) 360)
       = Some 1006
   \<and> angleLookup fillCircleCoords (double_add (- 2281266725309645 / 8796093022208) 360)
       \<noteq> angleLookup fillCircleCoords (- 2281266725309645 / 8796093022208)
   \<and> angleLookup fillCircleCoords (double_add 214748364 360)
       \<noteq> angleLookup fillCircleCoords 214748364"
proof -
  have d: "double_round (- 2281266725309645 / 8796093022208) = - 2281266725309645 / 8796093022208"
    using double_round_dyadic [of "- 2281266725309645" 43] by simp
  have a: "angleLookup fillCircleCoords (- 2281266725309645 / 8796093022208) = Some 1007"
    unfolding angleLookup_filled roundedScaledAngle_tie by (simp add: in_int_range_def)
  have b: "angleLookup fillCircleCoords (double_add (- 2281266725309645 / 8796093022208) 360)
       = Some 1006"
    unfolding double_add_360_tie angleLookup_filled roundedScaledAngle_tie_shifted
    by (simp add: in_int_range_def)
  have k1: "roundedScaledAngle 214748364 = 2147483640"
    using roundedScaledAngle_dyadic [of 429496728 1] by simp
  have s: "double_add 214748364 360 = 214748724"
    using double_add_360_dyadic [of 429496728 1] by simp
  have k2: "roundedScaledAngle 214748724 = 2147487240"
    using roundedScaledAngle_dyadic [of 429497448 1] by simp
  have c: "angleLookup fillCircleCoords (double_add 214748364 360)
       \<noteq> angleLookup fillCircleCoords 214748364"
    unfolding s angleLookup_filled k1 k2 by (simp add: in_int_range_def)
  from d a b c show ?thesis by simp
qed

text \<open>
  C8, amended: the filled table has 3601 entries. Whenever \<open>angleLookup\<close> returns an index,
  for negative and boundary inputs alike, the index lies in \<open>[0, 3600)\<close>; it returns the
  rounded value \<open>floor(angleDeg * 10 + 0.5)\<close>, computed in doubles, modulo 3600 whenever that
  value is a 32-bit \<^verbatim>\<open>int\<close>. For every angle \<open>x = m / 2 ^ q\<close> (\<open>q > 0\<close>,
  \<open>|10 m| + 3601 * 2 ^ q < 2 ^ 53\<close>), for which the products and sums involved are exact in
  doubles, and for which the rounded value and that value plus 3600 are 32-bit \<^verbatim>\<open>int\<close>s,
  the sum \<open>x + 360\<close> is exact and \<open>angleLookup(x + 360) = angleLookup(x)\<close>. (As a function of
  the table and the angle, the same input always yields the same index.)
\<close>

theorem C8_lookup_rounds_in_doubles:
  "length fillCircleCoords = 3601
   \<and> (\<forall>i. angleLookup fillCircleCoords x = Some i \<longrightarrow> 0 \<le> i \<and> i < 3600)
   \<and> (in_int_range (roundedScaledAngle x) \<longrightarrow>
        angleLookup fillCircleCoords x = Some (roundedScaledAngle x mod 3600))
   \<and> (0 < q \<and> \<bar>10 * m\<bar> + 3601 * 2 ^ q < 2 ^ 53
        \<and> in_int_range ((10 * m + 2 ^ (q - 1)) div 2 ^ q)
        \<and> in_int_range ((10 * m + 2 ^ (q - 1)) div 2 ^ q + 3600) \<longrightarrow>
        double_add (of_int m / 2 ^ q) 360 = of_int m / 2 ^ q + 360
      \<and> angleLookup fillCircleCoords (of_int m / 2 ^ q) =
          Some (((10 * m + 2 ^ (q - 1)) div 2 ^ q) mod 3600)
      \<and> angleLookup fillCircleCoords (double_add (of_int m / 2 ^ q) 360) =
          angleLookup fillCircleCoords (of_int m / 2 ^ q))"
proof -
  have a: "0 \<le> i \<and> i < 3600" if "angleLookup fillCircleCoords x = Some i" for i
  proof -
    from that have "i = roundedScaledAngle x mod 3600"
      by (simp add: angleLookup_filled split: if_splits)
    then show ?thesis by simp
  qed
  have b: "angleLookup fillCircleCoords x = Some (roundedScaledAngle x mod 3600)"
    if "in_int_range (roundedScaledAngle x)"
    using that by (simp add: angleLookup_filled)
  have c: "double_add (of_int m / 2 ^ q) 360 = of_int m / 2 ^ q + 360
      \<and> angleLookup fillCircleCoords (of_int m / 2 ^ q) =
          Some (((10 * m + 2 ^ (q - 1)) div 2 ^ q) mod 3600)
      \<and> angleLookup fillCircleCoords (double_add (of_int m / 2 ^ q) 360) =
          angleLookup fillCircleCoords (of_int m / 2 ^ q)"
    if q: "0 < q" and r: "\<bar>10 * m\<bar> + 3601 * 2 ^ q < 2 ^ 53"
      and i1: "in_int_range ((10 * m + 2 ^ (q - 1)) div 2 ^ q)"
      and i2: "in_int_range ((10 * m + 2 ^ (q - 1)) div 2 ^ q + 3600)"
  proof -
    have pos: "(0::int) < 2 ^ q" by simp
    have r': "\<bar>10 * m\<bar> + 2 ^ q < 2 ^ 53" using r pos by linarith
    have k: "roundedScaledAngle (of_int m / 2 ^ q) = (10 * m + 2 ^ (q - 1)) div 2 ^ q"
      using r' q by (rule roundedScaledAngle_dyadic)
    have k': "roundedScaledAngle (double_add (of_int m / 2 ^ q) 360) =
        (10 * m + 2 ^ (q - 1)) div 2 ^ q + 3600"
      using roundedScaledAngle_shift_dyadic [OF r q] k by simp
    have "double_add (of_int m / 2 ^ q) 360 = of_int m / 2 ^ q + 360"
      unfolding double_add_360_dyadic [OF r] by (simp add: add_divide_distrib)
    moreover have "angleLookup fillCircleCoords (of_int m / 2 ^ q) =
          Some (((10 * m + 2 ^ (q - 1)) div 2 ^ q) mod 3600)"
      unfolding angleLookup_filled k using i1 by simp
    moreover have "angleLookup fillCircleCoords (double_add (of_int m / 2 ^ q) 360) =
          Some (((10 * m + 2 ^ (q - 1)) div 2 ^ q) mod 3600)"
      unfolding angleLookup_filled k' using i2 by simp
    ultimately show ?thesis by simp
  qed
  from a b c length_fillCircleCoords show ?thesis by blast
qed

text \<open>
  Witness for C8: the negative angle -0.5 has the rounded value -5, which wraps to the
  index 3595, the index of 359.5.
\<close>

theorem C8_lookup_rounds_in_doubles_witness:
  "(0::nat) < 1 \<and> \<bar>10 * (- 1 :: int)\<bar> + 3601 * 2 ^ 1 < 2 ^ 53
   \<and> in_int_range ((10 * (- 1) + 2 ^ (1 - 1)) div 2 ^ 1)
   \<and> in_int_range ((10 * (- 1) + 2 ^ (1 - 1)) div 2 ^ 1 + 3600)
   \<and> in_int_range (roundedScaledAngle (- 1 / 2))
   \<and> angleLookup fillCircleCoords (- 1 / 2) = Some 3595
   \<and> double_add (- 1 / 2) 360 = 719 / 2
   \<and> angleLookup fillCircleCoords (double_add (- 1 / 2) 360) = Some 3595"
proof -
  have h: "(0::nat) < 1" "\<bar>10 * (- 1 :: int)\<bar> + 3601 * 2 ^ 1 < 2 ^ 53"
    "in_int_range ((10 * (- 1) + 2 ^ (1 - 1)) div 2 ^ 1)"
    "in_int_range ((10 * (- 1) + 2 ^ (1 - 1)) div 2 ^ 1 + 3600)"
    by (simp_all add: in_int_range_def)
  from C8_lookup_rounds_in_doubles [of "- 1 / 2" 1 "- 1"] h
  have t: "double_add (of_int (- 1) / 2 ^ 1) 360 = of_int (- 1) / 2 ^ 1 + 360
      \<and> angleLookup fillCircleCoords (of_int (- 1) / 2 ^ 1) =
          Some (((10 * (- 1) + 2 ^ (1 - 1)) div 2 ^ 1) mod 3600)
      \<and> angleLookup fillCircleCoords (double_add (of_int (- 1) / 2 ^ 1) 360) =
          angleLookup fillCircleCoords (of_int (- 1) / 2 ^ 1)"
    by blast
  then have u: "angleLookup fillCircleCoords (- 1 / 2) = Some 3595
     \<and> double_add (- 1 / 2) 360 = 719 / 2
     \<and> angleLookup fillCircleCoords (double_add (- 1 / 2) 360) = Some 3595"
    by simp
  have "roundedScaledAngle (- 1 / 2) = - 5"
    using roundedScaledAngle_dyadic [of "- 1" 1] by simp
  then have "in_int_range (roundedScaledAngle (- 1 / 2))" by (simp add: in_int_range_def)
  with h u show ?thesis by blast
qed

section \<open>The lane-to-lane connection map\<close>

lemma updateGeometry_Some: "\<exists>g'. updateGeometry g shape = Some g'"
  by (simp add: updateGeometry_def calculateShapeRotationsAndLengths_eq)

lemma lanesLoop_dom:
  "lanesLoop net fromLane lanes m = Some m' \<Longrightarrow> dom m' = dom m \<union> set lanes"
proof (induction lanes arbitrary: m)
  case Nil
  then show ?case by simp
next
  case (Cons outgoingLane rest)
  from Cons.prems obtain shape g' where
    "lanesLoop net fromLane rest (m(outgoingLane \<mapsto> g')) = Some m'"
    by (auto split: option.splits)
  from Cons.IH [OF this] show ?case by auto
qed

lemma edgesLoop_dom:
  "edgesLoop net fromLane edges m = Some m' \<Longrightarrow>
     dom m' = dom m \<union> set (concat (map (getLanes net) edges))"
proof (induction edges arbitrary: m)
  case Nil
  then show ?case by simp
next
  case (Cons outgoingEdge rest)
  from Cons.prems obtain m1 where
    m1: "lanesLoop net fromLane (getLanes net outgoingEdge) m = Some m1"
    and r: "edgesLoop net fromLane rest m1 = Some m'"
    by (auto split: option.splits)
  from lanesLoop_dom [OF m1] Cons.IH [OF r] show ?case by auto
qed

lemma connectionShape_Some:
  "getLaneShape net fromLane \<noteq> [] \<Longrightarrow> getLaneShape net outgoingLane \<noteq> [] \<Longrightarrow>
     \<exists>shape. connectionShape net fromLane outgoingLane = Some shape"
  by (cases "getLaneShape net outgoingLane")
    (simp_all add: connectionShape_def vector_back_def vector_front_def Let_def)

lemma lanesLoop_Some:
  "getLaneShape net fromLane \<noteq> [] \<Longrightarrow> \<forall>l \<in> set lanes. getLaneShape net l \<noteq> [] \<Longrightarrow>
     \<exists>m'. lanesLoop net fromLane lanes m = Some m'"
proof (induction lanes arbitrary: m)
  case Nil
  then show ?case by simp
next
  case (Cons outgoingLane rest)
  from Cons.prems obtain shape where
    s: "connectionShape net fromLane outgoingLane = Some shape"
    using connectionShape_Some [of net fromLane outgoingLane] by auto
  obtain g' where
    g: "updateGeometry (case m outgoingLane of None \<Rightarrow> Geometry_default | Some g \<Rightarrow> g) shape
          = Some g'"
    using updateGeometry_Some by blast
  from Cons.prems have "\<exists>m'. lanesLoop net fromLane rest (m(outgoingLane \<mapsto> g')) = Some m'"
    by (intro Cons.IH) simp_all
  with s g show ?case by simp
qed

lemma edgesLoop_Some:
  "getLaneShape net fromLane \<noteq> [] \<Longrightarrow>
   \<forall>l \<in> set (concat (map (getLanes net) edges)). getLaneShape net l \<noteq> [] \<Longrightarrow>
     \<exists>m'. edgesLoop net fromLane edges m = Some m'"
proof (induction edges arbitrary: m)
  case Nil
  then show ?case by simp
next
  case (Cons outgoingEdge rest)
  from Cons.prems obtain m1 where
    m1: "lanesLoop net fromLane (getLanes net outgoingEdge) m = Some m1"
    using lanesLoop_Some [of net fromLane "getLanes net outgoingEdge" m] by auto
  from Cons.prems have "\<exists>m'. edgesLoop net fromLane rest m1 = Some m'"
    by (intro Cons.IH) simp_all
  with m1 show ?case by simp
qed

text \<open>
  C9: \<^verbatim>\<open>exist(lane)\<close> is false for every lane of a freshly constructed connection
  object; after an update call that returns, \<^verbatim>\<open>exist(lane)\<close> is true exactly for the lanes
  of the outgoing edges of the destination junction of the owning lane, whatever the map
  held before; and the update returns whenever the owning lane is set and the lane shapes
  it reads are not empty.
\<close>

theorem C9_exist_after_update:
  "\<not> exist (Lane2laneConnection_of fromLane) lane
   \<and> \<not> exist Lane2laneConnection_default lane
   \<and> (myFromLane c = Some fromLane \<and> updateLane2laneConnection net c = Some c' \<longrightarrow>
        exist c' lane = (lane \<in> set (lanesOfOutgoingEdges net fromLane)))
   \<and> (myFromLane c = Some fromLane \<and> getLaneShape net fromLane \<noteq> []
        \<and> (\<forall>l \<in> set (lanesOfOutgoingEdges net fromLane). getLaneShape net l \<noteq> []) \<longrightarrow>
        (\<exists>c'. updateLane2laneConnection net c = Some c'))"
proof -
  have a: "\<not> exist (Lane2laneConnection_of fromLane) lane
      \<and> \<not> exist Lane2laneConnection_default lane"
    by (simp add: exist_def Lane2laneConnection_of_def Lane2laneConnection_default_def)
  have b: "exist c' lane = (lane \<in> set (lanesOfOutgoingEdges net fromLane))"
    if f: "myFromLane c = Some fromLane" and u: "updateLane2laneConnection net c = Some c'"
  proof -
    from f u obtain m where
      m: "edgesLoop net fromLane (outgoingEdges net fromLane) Map.empty = Some m"
      and c': "c' = c\<lparr>myConnectionsMap := m\<rparr>"
      by (auto simp add: updateLane2laneConnection_def Let_def split: option.splits)
    from edgesLoop_dom [OF m] have "dom m = set (lanesOfOutgoingEdges net fromLane)"
      by (simp add: lanesOfOutgoingEdges_def)
    with c' show ?thesis by (auto simp add: exist_def dom_def)
  qed
  have d: "\<exists>c'. updateLane2laneConnection net c = Some c'"
    if f: "myFromLane c = Some fromLane" and s: "getLaneShape net fromLane \<noteq> []"
      and l: "\<forall>l \<in> set (lanesOfOutgoingEdges net fromLane). getLaneShape net l \<noteq> []"
  proof -
    from edgesLoop_Some [of net fromLane "outgoingEdges net fromLane" Map.empty] s l
    obtain m where "edgesLoop net fromLane (outgoingEdges net fromLane) Map.empty = Some m"
      by (auto simp add: lanesOfOutgoingEdges_def)
    with f show ?thesis by (simp add: updateLane2laneConnection_def Let_def)
  qed
  from a b d show ?thesis by blast
qed

text \<open>
  Witness for C9: the owning lane 0, a map that holds the stale key 99, and a junction
  with the outgoing edges 10 (lanes 1 and 2) and 11 (lane 3): after the update the keys
  are 1, 2 and 3.
\<close>

theorem C9_exist_after_update_witness:
  "myFromLane ((Lane2laneConnection_of 0)\<lparr>myConnectionsMap := [99 \<mapsto> Geometry_default]\<rparr>) = Some 0
   \<and> (\<exists>c'. updateLane2laneConnection example_network
         ((Lane2laneConnection_of 0)\<lparr>myConnectionsMap := [99 \<mapsto> Geometry_default]\<rparr>) = Some c'
       \<and> exist c' 1 \<and> exist c' 2 \<and> exist c' 3 \<and> \<not> exist c' 99 \<and> \<not> exist c' 0)"
proof -
  let ?c = "(Lane2laneConnection_of 0)\<lparr>myConnectionsMap := [99 \<mapsto> Geometry_default]\<rparr>"
  have f: "myFromLane ?c = Some 0" by (simp add: Lane2laneConnection_of_def)
  have s: "getLaneShape example_network 0 \<noteq> []" by (simp add: example_network_def)
  have lanes: "lanesOfOutgoingEdges example_network 0 = [1, 2, 3]"
    by (simp add: lanesOfOutgoingEdges_def example_network_def)
  have l: "\<forall>l \<in> set (lanesOfOutgoingEdges example_network 0). getLaneShape example_network l \<noteq> []"
    by (simp add: example_network_def)
  from C9_exist_after_update [of 0 0 ?c example_network] f s l
  obtain c' where u: "updateLane2laneConnection example_network ?c = Some c'" by blast
  have "exist c' lane = (lane \<in> set (lanesOfOutgoingEdges example_network 0))" for lane
    using C9_exist_after_update [of 0 lane ?c example_network c'] f u by blast
  then have "exist c' 1 \<and> exist c' 2 \<and> exist c' 3 \<and> \<not> exist c' 99 \<and> \<not> exist c' 0"
    by (simp add: lanes)
  with f u show ?thesis by blast
qed

end
